theory Spec2Isabelle
  imports Main "HOL-Library.Sublist" "HOL-Library.AList"
begin

section \<open>Values, requests and the wire encoding\<close>

text \<open>
  Go's \<^verbatim>\<open>any\<close> values that the client passes as request parameters: the nil
  interface, booleans, integers, strings (byte sequences) and slices of such values. \<open>AFunc\<close> stands for the kinds that
  \<^verbatim>\<open>json.Marshal\<close> refuses (functions, channels, complex numbers). A slice of
  \<^verbatim>\<open>any\<close> is an \<open>any list option\<close>: \<open>None\<close> is the nil slice, which has length 0 and
  which \<^verbatim>\<open>json.Marshal\<close> writes as \<^verbatim>\<open>null\<close>.
\<close>

datatype any = ANil | ABool bool | AInt int | AString string | ASlice "any list" | AFunc

type_synonym slice = "any list option"

definition len :: "slice \<Rightarrow> nat" where
  "len s = (case s of None \<Rightarrow> 0 | Some xs \<Rightarrow> length xs)"

datatype go_error =
    UnsupportedTypeError
  | ConnectionDown
  | ErrRejectedTx
  | ErrUnavailableMethod
  | UnmarshalTypeError
  | ErrorMessage string

text \<open>
  What a call does besides returning: it returns (\<open>Ok\<close>), it panics, or it blocks for
  ever (a lock that is never released, a channel on which nothing is ever sent).
\<close>

datatype 'a outcome = Ok 'a | Panic | Blocked

definition bind :: "'a outcome \<Rightarrow> ('a \<Rightarrow> 'b outcome) \<Rightarrow> 'b outcome" where
  "bind m f = (case m of Ok x \<Rightarrow> f x | Panic \<Rightarrow> Panic | Blocked \<Rightarrow> Blocked)"

text \<open>The message delimiter and the batch punctuation of client.go.\<close>

definition delimiter :: char where
  "delimiter = CHR 0x0A"

definition comma :: string where
  "comma = '',''"

definition arrayStart :: string where
  "arrayStart = ''[''"

definition arrayEnd :: string where
  "arrayEnd = '']''"

subsection \<open>\<^verbatim>\<open>json.Marshal\<close> on the values a request holds\<close>

definition hex :: string where
  "hex = ''0123456789abcdef''"

text \<open>Decimal digits of a natural number, most significant first.\<close>

fun decimal :: "nat \<Rightarrow> string" where
  "decimal n = (if n < 10 then [hex ! n] else decimal (n div 10) @ [hex ! (n mod 10)])"

declare decimal.simps [simp del]

definition formatInt :: "int \<Rightarrow> string" where
  "formatInt i = (if i < 0 then CHR ''-'' # decimal (nat (- i)) else decimal (nat i))"

text \<open>
  The string encoder of \<^verbatim>\<open>encoding/json\<close> with HTML escaping on (the default of
  \<^verbatim>\<open>json.Marshal\<close>). \<open>htmlSafe\<close> is its table \<^verbatim>\<open>htmlSafeSet\<close>: the ASCII bytes copied as
  they are. The other ASCII bytes are escaped by \<open>escapeByte\<close>.
\<close>

definition htmlSafe :: "char \<Rightarrow> bool" where
  "htmlSafe b = ((32::nat) \<le> of_char b \<and> of_char b < (128::nat) \<and>
     b \<noteq> CHR 0x22 \<and> b \<noteq> CHR 0x26 \<and> b \<noteq> CHR 0x3C \<and> b \<noteq> CHR 0x3E \<and> b \<noteq> CHR 0x5C)"

definition escapeByte :: "char \<Rightarrow> string" where
  "escapeByte b =
     (if b = CHR 0x5C \<or> b = CHR 0x22 then [CHR 0x5C, b]
      else if b = CHR 0x08 then [CHR 0x5C, CHR ''b'']
      else if b = CHR 0x0C then [CHR 0x5C, CHR ''f'']
      else if b = CHR 0x0A then [CHR 0x5C, CHR ''n'']
      else if b = CHR 0x0D then [CHR 0x5C, CHR ''r'']
      else if b = CHR 0x09 then [CHR 0x5C, CHR ''t'']
      else [CHR 0x5C, CHR ''u'', CHR ''0'', CHR ''0'',
            hex ! (of_char b div 16), hex ! (of_char b mod 16)])"

text \<open>
  \<^verbatim>\<open>utf8.DecodeRuneInString\<close>, as far as the encoder uses it: the number of bytes of the
  well-formed UTF-8 sequence at the head of the string, or 0 where the head is not one
  (Go's \<^verbatim>\<open>RuneError\<close> of size 1).
\<close>

definition cont :: "char \<Rightarrow> bool" where
  "cont b = ((0x80::nat) \<le> of_char b \<and> of_char b \<le> (0xBF::nat))"

definition second_ok :: "char \<Rightarrow> char \<Rightarrow> bool" where
  "second_ok b0 b1 =
     (let lo = (if b0 = CHR 0xE0 then 0xA0 else if b0 = CHR 0xF0 then 0x90 else (0x80::nat));
          hi = (if b0 = CHR 0xED then 0x9F else if b0 = CHR 0xF4 then 0x8F else (0xBF::nat))
      in lo \<le> of_char b1 \<and> of_char b1 \<le> hi)"

fun runeLen :: "string \<Rightarrow> nat" where
  "runeLen [] = 0"
| "runeLen (b0 # bs) =
     (let n0 = (of_char b0 :: nat) in
      if 0xC2 \<le> n0 \<and> n0 \<le> 0xDF then
        (case bs of b1 # _ \<Rightarrow> if cont b1 then 2 else 0 | _ \<Rightarrow> 0)
      else if 0xE0 \<le> n0 \<and> n0 \<le> 0xEF then
        (case bs of b1 # b2 # _ \<Rightarrow> if second_ok b0 b1 \<and> cont b2 then 3 else 0 | _ \<Rightarrow> 0)
      else if 0xF0 \<le> n0 \<and> n0 \<le> 0xF4 then
        (case bs of b1 # b2 # b3 # _ \<Rightarrow>
           if second_ok b0 b1 \<and> cont b2 \<and> cont b3 then 4 else 0 | _ \<Rightarrow> 0)
      else 0)"

definition lineSep :: string where
  "lineSep = [CHR 0xE2, CHR 0x80, CHR 0xA8]"

definition paraSep :: string where
  "paraSep = [CHR 0xE2, CHR 0x80, CHR 0xA9]"

text \<open>
  The body of \<^verbatim>\<open>appendString\<close> between the two quotes: one step per ASCII byte, per
  well-formed sequence, or per offending byte (written as the escape of U+FFFD); U+2028 and
  U+2029 are always escaped.
\<close>

function escapeString :: "string \<Rightarrow> string" where
  "escapeString [] = []"
| "escapeString (b # bs) =
     (if (of_char b :: nat) < 0x80 then
        (if htmlSafe b then [b] else escapeByte b) @ escapeString bs
      else if runeLen (b # bs) = 0 then
        [CHR 0x5C, CHR ''u'', CHR ''f'', CHR ''f'', CHR ''f'', CHR ''d''] @ escapeString bs
      else if take 3 (b # bs) = lineSep then
        [CHR 0x5C, CHR ''u'', CHR ''2'', CHR ''0'', CHR ''2'', CHR ''8''] @ escapeString (drop 2 bs)
      else if take 3 (b # bs) = paraSep then
        [CHR 0x5C, CHR ''u'', CHR ''2'', CHR ''0'', CHR ''2'', CHR ''9''] @ escapeString (drop 2 bs)
      else take (runeLen (b # bs)) (b # bs) @ escapeString (drop (runeLen (b # bs) - 1) bs))"
  by pat_completeness auto
termination
  by (relation "measure length") auto

declare escapeString.simps(2) [simp del]

definition appendString :: "string \<Rightarrow> string" where
  "appendString s = CHR 0x22 # escapeString s @ [CHR 0x22]"

text \<open>\<^verbatim>\<open>strings.Join\<close>.\<close>

fun Join :: "string list \<Rightarrow> string \<Rightarrow> string" where
  "Join [] sep = []"
| "Join [x] sep = x"
| "Join (x # y # ys) sep = x @ sep @ Join (y # ys) sep"

text \<open>
  \<^verbatim>\<open>json.Marshal\<close> of one value: \<open>None\<close> is the error it returns for a value of an
  unsupported kind.
\<close>

fun sequence :: "'a option list \<Rightarrow> 'a list option" where
  "sequence [] = Some []"
| "sequence (None # _) = None"
| "sequence (Some x # xs) = (case sequence xs of None \<Rightarrow> None | Some ys \<Rightarrow> Some (x # ys))"

fun marshalAny :: "any \<Rightarrow> string option" where
  "marshalAny ANil = Some ''null''"
| "marshalAny (ABool b) = Some (if b then ''true'' else ''false'')"
| "marshalAny (AInt i) = Some (formatInt i)"
| "marshalAny (AString s) = Some (appendString s)"
| "marshalAny (ASlice xs) =
     (case sequence (map marshalAny xs) of
        None \<Rightarrow> None
      | Some js \<Rightarrow> Some (''['' @ Join js '','' @ '']''))"
| "marshalAny AFunc = None"

definition marshalSlice :: "slice \<Rightarrow> string option" where
  "marshalSlice s = (case s of None \<Rightarrow> Some ''null'' | Some xs \<Rightarrow> marshalAny (ASlice xs))"

text \<open>
  The request structure of data.go with its JSON field tags. \<open>ID\<close> is a Go \<^verbatim>\<open>int\<close>:
  an integer of 64 bits, kept as an \<open>int\<close> between \<open>- 2 ^ 63\<close> and \<open>2 ^ 63 - 1\<close>.
\<close>

record request =
  RPC :: string
  ID :: int
  Method :: string
  Params :: slice

definition marshalRequest :: "request \<Rightarrow> string option" where
  "marshalRequest r =
     (case marshalSlice (Params r) of
        None \<Rightarrow> None
      | Some p \<Rightarrow>
          Some (''{'' @ appendString ''jsonrpc'' @ '':'' @ appendString (RPC r) @ '','' @
                appendString ''id'' @ '':'' @ formatInt (ID r) @ '','' @
                appendString ''method'' @ '':'' @ appendString (Method r) @ '','' @
                appendString ''params'' @ '':'' @ p @ ''}''))"

text \<open>
  \<^verbatim>\<open>func (r *request) encode() ([]byte, error)\<close>: fills in the protocol version,
  marshals, and appends the message delimiter.
\<close>

definition encode :: "request \<Rightarrow> go_error + string" where
  "encode r =
     (let r' = (if RPC r = [] then r\<lparr>RPC := ''2.0''\<rparr> else r) in
      case marshalRequest r' of
        None \<Rightarrow> Inl UnsupportedTypeError
      | Some b \<Rightarrow> Inr (b @ [delimiter]))"

text \<open>
  \<^verbatim>\<open>func encodeBatch(reqs []*request) ([]byte, error)\<close>: the first request that does
  not encode ends the loop with its error.
\<close>

fun encodeAll :: "request list \<Rightarrow> go_error + string list" where
  "encodeAll [] = Inr []"
| "encodeAll (r # rs) =
     (case encode r of
        Inl e \<Rightarrow> Inl e
      | Inr x \<Rightarrow> (case encodeAll rs of Inl e \<Rightarrow> Inl e | Inr xs \<Rightarrow> Inr (x # xs)))"

definition encodeBatch :: "request list \<Rightarrow> go_error + string" where
  "encodeBatch reqs =
     (case encodeAll reqs of
        Inl e \<Rightarrow> Inl e
      | Inr reqsJson \<Rightarrow> Inr (arrayStart @ Join reqsJson comma @ arrayEnd))"

section \<open>Decoding\<close>

text \<open>
  A JSON value as it stands in a frame. A number is an integer literal; a literal with a
  fraction or an exponent is outside the model, and the parser gives \<open>None\<close> for it, as
  for a frame that is not JSON.
\<close>

datatype json = JNull | JBool bool | JNumber int | JString string | JArray "json list"
  | JObject "(string \<times> json) list"

text \<open>The scanner of \<^verbatim>\<open>encoding/json\<close>: white space, numbers, strings.\<close>

definition is_space :: "char \<Rightarrow> bool" where
  "is_space c \<longleftrightarrow> c = CHR '' '' \<or> c = CHR 0x09 \<or> c = CHR 0x0D \<or> c = CHR 0x0A"

definition skip_ws :: "string \<Rightarrow> string" where
  "skip_ws s = dropWhile is_space s"

definition is_digit :: "char \<Rightarrow> bool" where
  "is_digit c \<longleftrightarrow> (48::nat) \<le> of_char c \<and> of_char c \<le> (57::nat)"

definition digit_val :: "char \<Rightarrow> nat" where
  "digit_val c = of_char c - 48"

definition digits_val :: "string \<Rightarrow> nat" where
  "digits_val ds = foldl (\<lambda>a c. 10 * a + digit_val c) 0 ds"

definition starts_fraction :: "string \<Rightarrow> bool" where
  "starts_fraction s = (case s of [] \<Rightarrow> False | c # _ \<Rightarrow> c = CHR ''.'' \<or> c = CHR ''e'' \<or> c = CHR ''E'')"

definition scan_nat :: "string \<Rightarrow> (nat \<times> string) option" where
  "scan_nat s =
     (case s of
        [] \<Rightarrow> None
      | c # cs \<Rightarrow>
          if c = CHR ''0'' then
            (case cs of
               [] \<Rightarrow> Some (0, [])
             | d # _ \<Rightarrow> if is_digit d \<or> starts_fraction cs then None else Some (0, cs))
          else if is_digit c then
            (let ds = takeWhile is_digit s; rest = dropWhile is_digit s
             in if starts_fraction rest then None else Some (digits_val ds, rest))
          else None)"

definition scan_number :: "string \<Rightarrow> (int \<times> string) option" where
  "scan_number s =
     (case s of
        [] \<Rightarrow> None
      | c # cs \<Rightarrow>
          if c = CHR ''-'' then map_option (\<lambda>(n, rest). (- int n, rest)) (scan_nat cs)
          else map_option (\<lambda>(n, rest). (int n, rest)) (scan_nat s))"

text \<open>
  \<^verbatim>\<open>unquoteBytes\<close> with \<^verbatim>\<open>getu4\<close> and \<^verbatim>\<open>utf8.EncodeRune\<close>: the bytes of a string literal after
  its opening quote, up to the closing quote. A control character ends the parse; an
  escaped surrogate pair gives one code point, a lone surrogate and a byte that is not
  UTF-8 give U+FFFD.
\<close>

definition hex_val :: "char \<Rightarrow> nat option" where
  "hex_val c =
     (let n = (of_char c :: nat) in
      if 48 \<le> n \<and> n \<le> 57 then Some (n - 48)
      else if 97 \<le> n \<and> n \<le> 102 then Some (n - 87)
      else if 65 \<le> n \<and> n \<le> 70 then Some (n - 55)
      else None)"

definition getu4 :: "string \<Rightarrow> nat option" where
  "getu4 s =
     (case s of
        b # u # h1 # h2 # h3 # h4 # _ \<Rightarrow>
          if b = CHR 0x5C \<and> u = CHR ''u'' then
            (case (hex_val h1, hex_val h2, hex_val h3, hex_val h4) of
               (Some a, Some b, Some c, Some d) \<Rightarrow> Some (((a * 16 + b) * 16 + c) * 16 + d)
             | _ \<Rightarrow> None)
          else None
      | _ \<Rightarrow> None)"

definition replacement :: string where
  "replacement = [CHR 0xEF, CHR 0xBF, CHR 0xBD]"

definition encodeRune :: "nat \<Rightarrow> string" where
  "encodeRune r =
     (if r < 0x80 then [char_of r]
      else if r < 0x800 then [char_of (0xC0 + r div 64), char_of (0x80 + r mod 64)]
      else if (0xD800 \<le> r \<and> r < 0xE000) \<or> 0x10FFFF < r then replacement
      else if r < 0x10000 then
        [char_of (0xE0 + r div 4096), char_of (0x80 + r div 64 mod 64), char_of (0x80 + r mod 64)]
      else [char_of (0xF0 + r div 262144), char_of (0x80 + r div 4096 mod 64),
            char_of (0x80 + r div 64 mod 64), char_of (0x80 + r mod 64)])"

definition unescape :: "char \<Rightarrow> char option" where
  "unescape c =
     (if c = CHR 0x22 \<or> c = CHR 0x5C \<or> c = CHR ''/'' then Some c
      else if c = CHR ''b'' then Some (CHR 0x08)
      else if c = CHR ''f'' then Some (CHR 0x0C)
      else if c = CHR ''n'' then Some (CHR 0x0A)
      else if c = CHR ''r'' then Some (CHR 0x0D)
      else if c = CHR ''t'' then Some (CHR 0x09)
      else None)"

function unquoteBytes :: "string \<Rightarrow> (string \<times> string) option" where
  "unquoteBytes [] = None"
| "unquoteBytes (c # cs) =
     (if c = CHR 0x22 then Some ([], cs)
      else if c = CHR 0x5C then
        (case cs of
           [] \<Rightarrow> None
         | e # es \<Rightarrow>
             if e = CHR ''u'' then
               (case getu4 (c # cs) of
                  None \<Rightarrow> None
                | Some rr \<Rightarrow>
                    if 0xD800 \<le> rr \<and> rr < 0xE000 then
                      (case getu4 (drop 5 cs) of
                         Some rr1 \<Rightarrow>
                           if rr < 0xDC00 \<and> 0xDC00 \<le> rr1 \<and> rr1 < 0xE000 then
                             map_option (apfst ((@) (encodeRune
                               ((rr - 0xD800) * 1024 + (rr1 - 0xDC00) + 0x10000))))
                               (unquoteBytes (drop 11 cs))
                           else map_option (apfst ((@) replacement)) (unquoteBytes (drop 5 cs))
                       | None \<Rightarrow> map_option (apfst ((@) replacement)) (unquoteBytes (drop 5 cs)))
                    else map_option (apfst ((@) (encodeRune rr))) (unquoteBytes (drop 5 cs)))
             else
               (case unescape e of
                  None \<Rightarrow> None
                | Some b \<Rightarrow> map_option (apfst ((#) b)) (unquoteBytes es)))
      else if (of_char c :: nat) < 0x20 then None
      else if (of_char c :: nat) < 0x80 then map_option (apfst ((#) c)) (unquoteBytes cs)
      else if runeLen (c # cs) = 0 then map_option (apfst ((@) replacement)) (unquoteBytes cs)
      else map_option (apfst ((@) (take (runeLen (c # cs)) (c # cs))))
             (unquoteBytes (drop (runeLen (c # cs) - 1) cs)))"
  by pat_completeness auto
termination
  by (relation "measure length") auto

declare unquoteBytes.simps(2) [simp del]

text \<open>
  The parser, with fuel: one unit per nested value and per element. \<open>parse_json\<close> gives it
  the length of the frame, which is enough, and accepts only white space after the value.
\<close>

fun parse_value :: "nat \<Rightarrow> string \<Rightarrow> (json \<times> string) option"
  and parse_elements :: "nat \<Rightarrow> string \<Rightarrow> (json list \<times> string) option"
  and parse_members :: "nat \<Rightarrow> string \<Rightarrow> ((string \<times> json) list \<times> string) option" where
  "parse_value 0 s = None"
| "parse_value (Suc f) s =
     (case skip_ws s of
        [] \<Rightarrow> None
      | c # cs \<Rightarrow>
          if c = CHR ''['' then
            (case skip_ws cs of
               [] \<Rightarrow> None
             | d # ds \<Rightarrow>
                 if d = CHR '']'' then Some (JArray [], ds)
                 else map_option (apfst JArray) (parse_elements f cs))
          else if c = CHR ''{'' then
            (case skip_ws cs of
               [] \<Rightarrow> None
             | d # ds \<Rightarrow>
                 if d = CHR ''}'' then Some (JObject [], ds)
                 else map_option (apfst JObject) (parse_members f cs))
          else if c = CHR 0x22 then map_option (apfst JString) (unquoteBytes cs)
          else if take 4 (c # cs) = ''true'' then Some (JBool True, drop 3 cs)
          else if take 5 (c # cs) = ''false'' then Some (JBool False, drop 4 cs)
          else if take 4 (c # cs) = ''null'' then Some (JNull, drop 3 cs)
          else map_option (apfst JNumber) (scan_number (c # cs)))"
| "parse_elements 0 s = None"
| "parse_elements (Suc f) s =
     (case parse_value f s of
        None \<Rightarrow> None
      | Some (v, rest) \<Rightarrow>
          (case skip_ws rest of
             [] \<Rightarrow> None
           | c # cs \<Rightarrow>
               if c = CHR '','' then map_option (apfst ((#) v)) (parse_elements f cs)
               else if c = CHR '']'' then Some ([v], cs)
               else None))"
| "parse_members 0 s = None"
| "parse_members (Suc f) s =
     (case skip_ws s of
        [] \<Rightarrow> None
      | q # ks \<Rightarrow>
          if q = CHR 0x22 then
            (case unquoteBytes ks of
               None \<Rightarrow> None
             | Some (k, s1) \<Rightarrow>
                 (case skip_ws s1 of
                    [] \<Rightarrow> None
                  | colon # s2 \<Rightarrow>
                      if colon = CHR '':'' then
                        (case parse_value f s2 of
                           None \<Rightarrow> None
                         | Some (v, rest) \<Rightarrow>
                             (case skip_ws rest of
                                [] \<Rightarrow> None
                              | c # cs \<Rightarrow>
                                  if c = CHR '','' then
                                    map_option (apfst ((#) (k, v))) (parse_members f cs)
                                  else if c = CHR ''}'' then Some ([(k, v)], cs)
                                  else None))
                      else None))
          else None)"

definition parse_json :: "string \<Rightarrow> json option" where
  "parse_json s =
     (case parse_value (length s) s of
        None \<Rightarrow> None
      | Some (v, rest) \<Rightarrow> if skip_ws rest = [] then Some v else None)"

text \<open>
  \<^verbatim>\<open>json.Unmarshal\<close> stores a number in an \<^verbatim>\<open>interface{}\<close> as a \<^verbatim>\<open>float64\<close>: the integer
  literal is rounded to 53 significant bits, to nearest and to even on a tie, and a value
  of \<open>2 ^ 1024\<close> or more is an error. \<open>JNumber x\<close> in a decoded value is the \<^verbatim>\<open>float64\<close> of
  value \<open>x\<close>. An object becomes a map: of two members with one key the later stays.
\<close>

fun bitlen :: "nat \<Rightarrow> nat" where
  "bitlen n = (if n = 0 then 0 else Suc (bitlen (n div 2)))"

declare bitlen.simps [simp del]

definition float64_nat :: "nat \<Rightarrow> nat option" where
  "float64_nat m =
     (if m < 2 ^ 53 then Some m
      else
        (let e = bitlen m - 53; q = m div 2 ^ e; r = m mod 2 ^ e; h = 2 ^ (e - 1);
             m' = (if r < h \<or> (r = h \<and> even q) then q else q + 1) * 2 ^ e
         in if m' < 2 ^ 1024 then Some m' else None))"

definition float64 :: "int \<Rightarrow> int option" where
  "float64 n = map_option (\<lambda>m. if n < 0 then - int m else int m) (float64_nat (nat \<bar>n\<bar>))"

fun to_interface :: "json \<Rightarrow> json option" where
  "to_interface JNull = Some JNull"
| "to_interface (JBool b) = Some (JBool b)"
| "to_interface (JNumber n) = map_option JNumber (float64 n)"
| "to_interface (JString s) = Some (JString s)"
| "to_interface (JArray xs) = map_option JArray (sequence (map to_interface xs))"
| "to_interface (JObject ms) =
     map_option (\<lambda>vs. JObject (foldl (\<lambda>m (k, v). AList.update k v m) [] (zip (map fst ms) vs)))
       (sequence (map (to_interface \<circ> snd) ms))"

text \<open>
  The key of a member names the field whose JSON name it equals when letter case is
  folded (U+017F and U+212A fold to s and k).
\<close>

function foldName :: "string \<Rightarrow> string" where
  "foldName [] = []"
| "foldName (c # cs) =
     (if take 2 (c # cs) = [CHR 0xC5, CHR 0xBF] then CHR ''s'' # foldName (drop 1 cs)
      else if take 3 (c # cs) = [CHR 0xE2, CHR 0x84, CHR 0xAA] then CHR ''k'' # foldName (drop 2 cs)
      else if (65::nat) \<le> of_char c \<and> of_char c \<le> (90::nat) then
        char_of (of_char c + (32::nat)) # foldName cs
      else c # foldName cs)"
  by pat_completeness auto
termination
  by (relation "measure length") auto

section \<open>The session\<close>

text \<open>
  The response structure of data.go. A field that is absent from the frame keeps its zero
  value: \<open>resp_ID\<close> 0, \<open>resp_Method\<close> empty, \<open>resp_Result\<close> and \<open>resp_Params\<close> nil
  (\<open>JNull\<close>), \<open>resp_Error\<close> the nil pointer.
\<close>

record rpcError =
  Code :: int
  Message :: string

record response =
  resp_RPC :: string
  resp_ID :: int
  resp_Method :: string
  resp_Params :: json
  resp_Result :: json
  resp_Error :: "rpcError option"

text \<open>
  \<^verbatim>\<open>json.Unmarshal(m, resp)\<close> for a \<^verbatim>\<open>*response\<close>: the members of the object are stored
  in the fields in their order; \<^verbatim>\<open>null\<close> leaves a field as it is; a value of the wrong
  kind, or an integer outside \<^verbatim>\<open>int\<close>, is an error.
\<close>

definition set_string :: "json \<Rightarrow> string \<Rightarrow> string option" where
  "set_string v old = (case v of JString s \<Rightarrow> Some s | JNull \<Rightarrow> Some old | _ \<Rightarrow> None)"

definition set_int :: "json \<Rightarrow> int \<Rightarrow> int option" where
  "set_int v old =
     (case v of
        JNumber n \<Rightarrow> if - (2 ^ 63) \<le> n \<and> n < 2 ^ 63 then Some n else None
      | JNull \<Rightarrow> Some old
      | _ \<Rightarrow> None)"

definition set_error_field :: "string \<times> json \<Rightarrow> rpcError \<Rightarrow> rpcError option" where
  "set_error_field m e =
     (case m of (k, v) \<Rightarrow>
        if foldName k = ''code'' then map_option (\<lambda>n. e\<lparr>Code := n\<rparr>) (set_int v (Code e))
        else if foldName k = ''message'' then
          map_option (\<lambda>s. e\<lparr>Message := s\<rparr>) (set_string v (Message e))
        else if foldName k = ''data'' then
          (case v of JObject ms \<Rightarrow> map_option (\<lambda>_. e) (to_interface v) | JNull \<Rightarrow> Some e | _ \<Rightarrow> None)
        else Some e)"

fun fold_option :: "('a \<Rightarrow> 'b \<Rightarrow> 'b option) \<Rightarrow> 'a list \<Rightarrow> 'b \<Rightarrow> 'b option" where
  "fold_option g [] b = Some b"
| "fold_option g (x # xs) b = (case g x b of None \<Rightarrow> None | Some b' \<Rightarrow> fold_option g xs b')"

definition set_field :: "string \<times> json \<Rightarrow> response \<Rightarrow> response option" where
  "set_field m r =
     (case m of (k, v) \<Rightarrow>
        if foldName k = ''jsonrpc'' then
          map_option (\<lambda>s. r\<lparr>resp_RPC := s\<rparr>) (set_string v (resp_RPC r))
        else if foldName k = ''id'' then map_option (\<lambda>n. r\<lparr>resp_ID := n\<rparr>) (set_int v (resp_ID r))
        else if foldName k = ''method'' then
          map_option (\<lambda>s. r\<lparr>resp_Method := s\<rparr>) (set_string v (resp_Method r))
        else if foldName k = ''params'' then map_option (\<lambda>x. r\<lparr>resp_Params := x\<rparr>) (to_interface v)
        else if foldName k = ''result'' then map_option (\<lambda>x. r\<lparr>resp_Result := x\<rparr>) (to_interface v)
        else if foldName k = ''error'' then
          (case v of
             JNull \<Rightarrow> Some (r\<lparr>resp_Error := None\<rparr>)
           | JObject ms \<Rightarrow>
               map_option (\<lambda>e. r\<lparr>resp_Error := Some e\<rparr>)
                 (fold_option set_error_field ms
                    (case resp_Error r of None \<Rightarrow> \<lparr>Code = 0, Message = []\<rparr> | Some e \<Rightarrow> e))
           | _ \<Rightarrow> None)
        else Some r)"

definition zero_response :: response where
  "zero_response = \<lparr>resp_RPC = [], resp_ID = 0, resp_Method = [], resp_Params = JNull,
     resp_Result = JNull, resp_Error = None\<rparr>"

definition Unmarshal_response :: "string \<Rightarrow> go_error + response" where
  "Unmarshal_response s =
     (case parse_json s of
        None \<Rightarrow> Inl UnmarshalTypeError
      | Some JNull \<Rightarrow> Inr zero_response
      | Some (JObject ms) \<Rightarrow>
          (case fold_option set_field ms zero_response of
             None \<Rightarrow> Inl UnmarshalTypeError
           | Some r \<Rightarrow> Inr r)
      | Some _ \<Rightarrow> Inl UnmarshalTypeError)"

text \<open>
  Channels of responses live in a store, the list \<open>chans\<close> of the client: a channel value
  is its index there, so two subscriptions can hold the same channel. The channels are
  unbuffered: a send is taken by a goroutine that waits in a receive on the channel, and
  \<open>delivered\<close> lists, in order, the messages so taken. The first argument of \<open>chan_send\<close>
  lists the channels that have such a receiver; on any other open channel the send waits.
  Sending on a closed channel and closing a closed channel panic. An index outside the
  store is the nil channel: sending on it blocks, closing it panics.
\<close>

record chan =
  closed :: bool
  delivered :: "response list"

definition make_chan :: "chan list \<Rightarrow> nat \<times> chan list" where
  "make_chan chs = (length chs, chs @ [\<lparr>closed = False, delivered = []\<rparr>])"

definition chan_send :: "nat list \<Rightarrow> nat \<Rightarrow> response \<Rightarrow> chan list \<Rightarrow> chan list outcome" where
  "chan_send rcv ch r chs =
     (if ch < length chs then
        (if closed (chs ! ch) then Panic
         else if ch \<in> set rcv then
           Ok (chs[ch := (chs ! ch)\<lparr>delivered := delivered (chs ! ch) @ [r]\<rparr>])
         else Blocked)
      else Blocked)"

definition chan_close :: "nat \<Rightarrow> chan list \<Rightarrow> chan list outcome" where
  "chan_close ch chs =
     (if ch < length chs \<and> \<not> closed (chs ! ch) then Ok (chs[ch := (chs ! ch)\<lparr>closed := True\<rparr>])
      else Panic)"

text \<open>
  The subscription structure of client.go (\<open>sub_method\<close> is its field \<^verbatim>\<open>method\<close>). The
  handler and the context are opaque: a function and a context are known by a name, and
  \<open>None\<close> is nil.
\<close>

record subscription =
  sub_method :: string
  params :: slice
  messages :: nat
  handler :: "nat option"
  ctx :: "nat option"

text \<open>
  Modelled from the spec: the transport (transport.go is not among the sources). Its
  \<^verbatim>\<open>sendMessage\<close> takes a message the caller has framed and fails when the connection
  is not open; \<open>sent\<close> lists the messages handed over, as they go on the wire.
\<close>

record transport =
  conn_open :: bool
  sent :: "string list"

definition sendMessage :: "string \<Rightarrow> transport \<Rightarrow> go_error + transport" where
  "sendMessage b t = (if conn_open t then Inr (t\<lparr>sent := sent t @ [b]\<rparr>) else Inl ConnectionDown)"

text \<open>
  The client structure: the counter (a Go \<^verbatim>\<open>int\<close>), the map \<^verbatim>\<open>subs\<close> as an association
  list with one entry per key, the embedded mutex (\<open>locked\<close>), and whether the channel
  \<^verbatim>\<open>done\<close> has been closed. With it go the store of the channels and \<open>receivers\<close>: the
  channels on which a goroutine waits in a receive and to which it comes back after each
  message. These are the channel of a synchronous call while its caller waits, and the
  channel of a subscription as long as its processing loop runs (its handler returns and
  its context has not ended).
\<close>

record client =
  Version :: string
  Protocol :: string
  agent :: string
  counter :: int
  subs :: "(int \<times> subscription) list"
  chans :: "chan list"
  receivers :: "nat list"
  locked :: bool
  done_closed :: bool
  transport :: transport

text \<open>
  \<^verbatim>\<open>sync.Mutex\<close> is not reentrant: \<^verbatim>\<open>Lock\<close> on a locked mutex waits for an
  \<^verbatim>\<open>Unlock\<close>. Every function of the client that locks also unlocks before it returns,
  so a function that finds the mutex locked by its own caller waits for ever.
\<close>

definition Lock :: "client \<Rightarrow> client outcome" where
  "Lock c = (if locked c then Blocked else Ok (c\<lparr>locked := True\<rparr>))"

definition Unlock :: "client \<Rightarrow> client" where
  "Unlock c = c\<lparr>locked := False\<rparr>"

text \<open>Addition on Go's 64-bit \<^verbatim>\<open>int\<close> wraps around.\<close>

definition int_wrap :: "int \<Rightarrow> int" where
  "int_wrap x = (x + 2 ^ 63) mod 2 ^ 64 - 2 ^ 63"

text \<open>
  \<^verbatim>\<open>New\<close>, once the dial has succeeded: the defaults for the protocol, the version and
  the agent, and an empty session.
\<close>

record options =
  opt_Version :: string
  opt_Protocol :: string
  opt_Agent :: string

definition New :: "options \<Rightarrow> client" where
  "New opts =
     (let protocol = (if opt_Protocol opts = [] then ''1.4.2'' else opt_Protocol opts);
          version = (if opt_Version opts = [] then ''0.5.0'' else opt_Version opts);
          agt = (if opt_Agent opts = [] then ''fairbank-electrum'' else opt_Agent opts)
      in \<lparr>Version = version, Protocol = protocol, agent = agt @ ''-'' @ version,
          counter = 0, subs = [], chans = [], receivers = [], locked = False,
          done_closed = False,
          transport = \<lparr>conn_open = True, sent = []\<rparr>\<rparr>)"

text \<open>\<^verbatim>\<open>func (c *Client) req(name string, params ...any) *request\<close>\<close>

definition req :: "string \<Rightarrow> slice \<Rightarrow> client \<Rightarrow> (request \<times> client) outcome" where
  "req name ps c =
     bind (Lock c) (\<lambda>c1.
       let ps' = (if len ps = 0 then Some [] else ps);
           r = \<lparr>RPC = [], ID = counter c1, Method = name, Params = ps'\<rparr>
       in Ok (r, Unlock (c1\<lparr>counter := int_wrap (counter c1 + 1)\<rparr>)))"

text \<open>\<^verbatim>\<open>func (c *Client) batchReq(name string, params [][]any) []*request\<close>\<close>

fun batchReq :: "string \<Rightarrow> slice list \<Rightarrow> client \<Rightarrow> (request list \<times> client) outcome" where
  "batchReq name [] c = Ok ([], c)"
| "batchReq name (p # ps) c =
     bind (req name p c) (\<lambda>(r, c1).
       bind (batchReq name ps c1) (\<lambda>(rs, c2). Ok (r # rs, c2)))"

text \<open>
  \<^verbatim>\<open>func (c *Client) handleResponse(resp *response)\<close>: a message with a method goes to
  every subscription of that method, any other message to the subscription registered
  under its id, if there is one.
\<close>

fun send_all :: "nat list \<Rightarrow> response \<Rightarrow> client \<Rightarrow> client outcome" where
  "send_all [] resp c = Ok c"
| "send_all (ch # chs) resp c =
     bind (chan_send (receivers c) ch resp (chans c)) (\<lambda>cs. send_all chs resp (c\<lparr>chans := cs\<rparr>))"

definition handleResponse :: "response \<Rightarrow> client \<Rightarrow> client outcome" where
  "handleResponse resp c =
     (if resp_Method resp \<noteq> [] then
        bind (Lock c) (\<lambda>c1.
          bind (send_all (map (messages \<circ> snd)
                  (filter (\<lambda>(i, sub). sub_method sub = resp_Method resp) (subs c1))) resp c1)
            (\<lambda>c2. Ok (Unlock c2)))
      else
        bind (Lock c) (\<lambda>c1.
          let found = map_of (subs c1) (resp_ID resp); c2 = Unlock c1 in
          case found of
            Some sub \<Rightarrow> send_all [messages sub] resp c2
          | None \<Rightarrow> Ok c2))"

text \<open>\<^verbatim>\<open>func (c *Client) removeSubscription(id int)\<close>\<close>

definition removeSubscription :: "int \<Rightarrow> client \<Rightarrow> client outcome" where
  "removeSubscription i c =
     bind (Lock c) (\<lambda>c1.
       case map_of (subs c1) i of
         Some sub \<Rightarrow>
           bind (chan_close (messages sub) (chans c1)) (\<lambda>cs.
             Ok (Unlock (c1\<lparr>chans := cs, subs := AList.delete i (subs c1)\<rparr>)))
       | None \<Rightarrow> Ok (Unlock c1))"

text \<open>
  \<^verbatim>\<open>func (c *Client) Close()\<close>. How \<^verbatim>\<open>transport.close\<close> behaves is a parameter
  (transport.go is not among the sources); \<^verbatim>\<open>close(c.done)\<close> follows it.
\<close>

definition Close :: "(transport \<Rightarrow> transport outcome) \<Rightarrow> client \<Rightarrow> client outcome" where
  "Close transport_close c =
     bind (transport_close (transport c)) (\<lambda>t.
       if done_closed c then Panic else Ok (c\<lparr>transport := t, done_closed := True\<rparr>))"

text \<open>Modelled from the spec: \<^verbatim>\<open>transport.close\<close> closes the socket and returns.\<close>

definition transport_close_spec :: "transport \<Rightarrow> transport outcome" where
  "transport_close_spec t = Ok (t\<lparr>conn_open := False\<rparr>)"

text \<open>
  A receive on a channel that has been read \<open>k\<close> times: the next message, nil from a
  closed channel (\<open>Some None\<close>), or nothing yet (\<open>None\<close>).
\<close>

definition recv :: "nat \<Rightarrow> chan list \<Rightarrow> nat \<Rightarrow> response option option" where
  "recv ch chs k =
     (if ch < length chs then
        (if k < length (delivered (chs ! ch)) then Some (Some (delivered (chs ! ch) ! k))
         else if closed (chs ! ch) then Some None
         else None)
      else None)"

text \<open>
  While a caller waits in \<^verbatim>\<open><-res\<close>, its channel has a receiver, and the reader loop
  \<^verbatim>\<open>handleMessages\<close> hands the responses that arrive from the server (\<open>inbound\<close>, in their
  order of arrival) to \<open>handleResponse\<close>, one at a time, until one is sent on the channel.
  A caller whose message never arrives waits for ever.
\<close>

fun await :: "nat \<Rightarrow> response list \<Rightarrow> client \<Rightarrow> (response option \<times> client) outcome" where
  "await res [] c = (case recv res (chans c) 0 of Some m \<Rightarrow> Ok (m, c) | None \<Rightarrow> Blocked)"
| "await res (w # ws) c =
     (case recv res (chans c) 0 of
        Some m \<Rightarrow> Ok (m, c)
      | None \<Rightarrow> bind (handleResponse w c) (\<lambda>c'. await res ws c'))"

text \<open>\<^verbatim>\<open>func (c *Client) syncRequest(req *request) (*response, error)\<close>\<close>

definition syncRequest ::
  "request \<Rightarrow> response list \<Rightarrow> client \<Rightarrow> ((go_error + response option) \<times> client) outcome" where
  "syncRequest r inbound c =
     (let (res, cs) = make_chan (chans c) in
      bind (Lock (c\<lparr>chans := cs\<rparr>)) (\<lambda>c1.
        let c2 = Unlock (c1\<lparr>subs := AList.update (ID r)
                   \<lparr>sub_method = [], params = None, messages = res, handler = None, ctx = None\<rparr>
                   (subs c1)\<rparr>)
        in bind
             (case encode r of
                Inl e \<Rightarrow> Ok (Inl e, c2)
              | Inr b \<Rightarrow>
                  (case sendMessage (b @ [delimiter]) (transport c2) of
                     Inl e \<Rightarrow> Ok (Inl e, c2)
                   | Inr t \<Rightarrow>
                       bind (await res inbound (c2\<lparr>transport := t, receivers := res # receivers c2\<rparr>))
                         (\<lambda>(m, c3). Ok (Inr m, c3\<lparr>receivers := removeAll res (receivers c3)\<rparr>))))
             (\<lambda>(result, c4). bind (removeSubscription (ID r) c4) (\<lambda>c5. Ok (result, c5)))))"

text \<open>
  \<^verbatim>\<open>func (c *Client) startSubscription(sub *subscription) error\<close>. The processing loop
  it starts is the receiver of the subscription's channel.
\<close>

definition startSubscription :: "subscription \<Rightarrow> client \<Rightarrow> (go_error option \<times> client) outcome" where
  "startSubscription sub c =
     bind (req (sub_method sub) (params sub) (c\<lparr>receivers := messages sub # receivers c\<rparr>)) (\<lambda>(r, c1).
       bind (Lock c1) (\<lambda>c2.
         let c3 = Unlock (c2\<lparr>subs := AList.update (ID r) sub (subs c2)\<rparr>) in
         case encode r of
           Inl e \<Rightarrow> bind (removeSubscription (ID r) c3) (\<lambda>c4. Ok (Some e, c4))
         | Inr b \<Rightarrow>
             (case sendMessage b (transport c3) of
                Inl e \<Rightarrow> bind (removeSubscription (ID r) c3) (\<lambda>c4. Ok (Some e, c4))
              | Inr t \<Rightarrow> Ok (None, c3\<lparr>transport := t\<rparr>))))"

text \<open>One tick of the keep-alive loop of \<^verbatim>\<open>New\<close>: errors are ignored.\<close>

definition keepAlive_tick :: "client \<Rightarrow> client outcome" where
  "keepAlive_tick c =
     bind (req ''server.version'' (Some [AString (Version c), AString (Protocol c)]) c)
       (\<lambda>(r, c1).
         case encode r of
           Inl e \<Rightarrow> Ok c1
         | Inr b \<Rightarrow>
             (case sendMessage b (transport c1) of
                Inl e \<Rightarrow> Ok c1
              | Inr t \<Rightarrow> Ok (c1\<lparr>transport := t\<rparr>)))"

subsection \<open>Batches\<close>

text \<open>
  The first loop of \<^verbatim>\<open>syncBatchRequest\<close>: every request is registered under the one
  channel of the batch, and \<^verbatim>\<open>reqMap\<close> records its position.
\<close>

definition batch_sub :: "nat \<Rightarrow> subscription" where
  "batch_sub res = \<lparr>sub_method = [], params = None, messages = res, handler = None, ctx = None\<rparr>"

fun batch_register ::
  "nat \<Rightarrow> request list \<Rightarrow> (int \<times> subscription) list \<Rightarrow> (int \<times> subscription) list" where
  "batch_register res [] m = m"
| "batch_register res (r # rs) m = batch_register res rs (AList.update (ID r) (batch_sub res) m)"

fun batch_index :: "request list \<Rightarrow> nat \<Rightarrow> (int \<times> nat) list \<Rightarrow> (int \<times> nat) list" where
  "batch_index [] i m = m"
| "batch_index (r # rs) i m = batch_index rs (Suc i) (AList.update (ID r) i m)"

text \<open>
  The caller of a batch and the reader loop \<^verbatim>\<open>handleMessages\<close> are two goroutines, and
  what a batch returns depends on how their steps interleave. A \<open>system\<close> holds both: the
  session they share; the responses that have arrived from the server and that the reader
  has not taken yet (\<open>incoming\<close>, in their order of arrival); where each goroutine stands;
  and the variables of the caller: the channel \<^verbatim>\<open>res\<close> (\<open>res_ch\<close>), the map \<open>reqMap\<close>,
  the number \<^verbatim>\<open>len(reqs)\<close>, the slice \<open>responses\<close> and the counter \<open>respCount\<close>.

  The reader is at the \<^verbatim>\<open>select\<close> of \<^verbatim>\<open>handleMessages\<close> (\<open>Selecting\<close>), or inside
  \<open>handleResponse\<close>, about to send a response on the channels listed, with the mutex held
  (\<open>True\<close>, the response has a method) or not (\<open>Sending\<close>). The caller is at the receive of
  \<^verbatim>\<open>for resp := range res\<close> (\<open>Receiving\<close>); or holds the response it has received,
  before its locked \<^verbatim>\<open>delete\<close> (\<open>Deleting\<close>) or before it stores and counts it
  (\<open>Storing\<close>); or has returned \<open>responses\<close> and a nil error (\<open>Returned\<close>).
\<close>

datatype reader_pc = Selecting | Sending "nat list" response bool

datatype caller_pc = Receiving | Deleting response | Storing response | Returned

record system =
  session :: client
  incoming :: "response list"
  reader :: reader_pc
  caller :: caller_pc
  res_ch :: nat
  reqMap :: "(int \<times> nat) list"
  len_reqs :: nat
  responses :: "response option list"
  respCount :: nat

text \<open>
  One step of the reader, \<open>Blocked\<close> when it cannot take one now. At the \<^verbatim>\<open>select\<close> it
  takes the next response and runs \<open>handleResponse\<close> up to its first send: it locks, looks
  the subscriptions up and, for a response without a method, unlocks. Then each send is a
  step. On the channel of the batch the send needs the caller at its receive, and hands
  the response over to it; on another channel it needs a receiver of the session.
\<close>

definition reader_step :: "system \<Rightarrow> system outcome" where
  "reader_step s =
     (let c = session s in
      case reader s of
        Selecting \<Rightarrow>
          (case incoming s of
             [] \<Rightarrow> Blocked
           | resp # later \<Rightarrow>
               bind (Lock c) (\<lambda>c1.
                 if resp_Method resp \<noteq> [] then
                   Ok (s\<lparr>session := c1, incoming := later,
                         reader := Sending (map (messages \<circ> snd)
                           (filter (\<lambda>(i, sub). sub_method sub = resp_Method resp) (subs c1)))
                           resp True\<rparr>)
                 else
                   (case map_of (subs c1) (resp_ID resp) of
                      Some sub \<Rightarrow>
                        Ok (s\<lparr>session := Unlock c1, incoming := later,
                              reader := Sending [messages sub] resp False\<rparr>)
                    | None \<Rightarrow> Ok (s\<lparr>session := Unlock c1, incoming := later\<rparr>))))
      | Sending [] resp held \<Rightarrow>
          Ok (s\<lparr>session := (if held then Unlock c else c), reader := Selecting\<rparr>)
      | Sending (ch # chs) resp held \<Rightarrow>
          bind (chan_send (if ch = res_ch s then (if caller s = Receiving then [ch] else [])
                           else receivers c) ch resp (chans c))
            (\<lambda>cs. Ok (s\<lparr>session := c\<lparr>chans := cs\<rparr>, reader := Sending chs resp held,
                         caller := (if ch = res_ch s then Deleting resp else caller s)\<rparr>)))"

text \<open>
  One step of the caller in \<^verbatim>\<open>for resp := range res\<close>. At the receive it waits for a
  send, and leaves the loop once the channel is closed. With a response in hand it locks,
  deletes the id of the response from \<^verbatim>\<open>subs\<close> and unlocks; then it stores the response
  at the position \<^verbatim>\<open>reqMap\<close> gives (0 for a key the map does not hold; an index
  outside \<open>responses\<close> panics), counts it, and closes the channel when the count is
  \<^verbatim>\<open>len(reqs)\<close>.
\<close>

definition caller_step :: "system \<Rightarrow> system outcome" where
  "caller_step s =
     (let c = session s in
      case caller s of
        Receiving \<Rightarrow>
          if res_ch s < length (chans c) \<and> closed (chans c ! res_ch s) then Ok (s\<lparr>caller := Returned\<rparr>)
          else Blocked
      | Deleting resp \<Rightarrow>
          bind (Lock c) (\<lambda>c1.
            Ok (s\<lparr>session := Unlock (c1\<lparr>subs := AList.delete (resp_ID resp) (subs c1)\<rparr>),
                  caller := Storing resp\<rparr>))
      | Storing resp \<Rightarrow>
          (let k = (case map_of (reqMap s) (resp_ID resp) of Some k \<Rightarrow> k | None \<Rightarrow> 0) in
           if k < length (responses s) then
             (let s1 = s\<lparr>responses := (responses s)[k := Some resp],
                         respCount := respCount s + 1, caller := Receiving\<rparr>
              in if respCount s + 1 = len_reqs s then
                   bind (chan_close (res_ch s) (chans c)) (\<lambda>cs. Ok (s1\<lparr>session := c\<lparr>chans := cs\<rparr>\<rparr>))
                 else Ok s1)
           else Panic)
      | Returned \<Rightarrow> Blocked)"

text \<open>
  An execution is a list of goroutines, each of which takes its step at its turn. \<open>run\<close>
  gives the system after it; \<open>Panic\<close> when a step panics, which ends the program; and
  \<open>Blocked\<close> when a goroutine of the list cannot take its step at its turn, so that the list
  is not an execution.
\<close>

datatype goroutine = Reader | Caller

definition step :: "goroutine \<Rightarrow> system \<Rightarrow> system outcome" where
  "step g s = (case g of Reader \<Rightarrow> reader_step s | Caller \<Rightarrow> caller_step s)"

fun run :: "goroutine list \<Rightarrow> system \<Rightarrow> system outcome" where
  "run [] s = Ok s"
| "run (g # gs) s = bind (step g s) (run gs)"

text \<open>
  \<^verbatim>\<open>func (c *Client) syncBatchRequest(reqs []*request) ([]*response, error)\<close>, up to its
  loop: it registers every request under the one channel \<open>res\<close>, records its position in
  \<^verbatim>\<open>reqMap\<close>, and sends the frame. The result is the error it returns, or the system in
  which the caller enters its loop while \<open>inbound\<close> arrives.
\<close>

definition syncBatchRequest ::
  "request list \<Rightarrow> response list \<Rightarrow> client \<Rightarrow> (go_error + system) outcome" where
  "syncBatchRequest reqs inbound c =
     (let (ch, cs) = make_chan (chans c);
          m = batch_index reqs 0 []
      in bind (Lock (c\<lparr>chans := cs\<rparr>)) (\<lambda>c1.
           let c2 = Unlock (c1\<lparr>subs := batch_register ch reqs (subs c1)\<rparr>) in
           case encodeBatch reqs of
             Inl e \<Rightarrow> Ok (Inl e)
           | Inr b \<Rightarrow>
               (case sendMessage (b @ [delimiter]) (transport c2) of
                  Inl e \<Rightarrow> Ok (Inl e)
                | Inr t \<Rightarrow>
                    Ok (Inr \<lparr>session = c2\<lparr>transport := t\<rparr>, incoming = inbound,
                             reader = Selecting, caller = Receiving, res_ch = ch, reqMap = m,
                             len_reqs = length reqs, responses = replicate (length reqs) None,
                             respCount = 0\<rparr>))))"

text \<open>
  A bound on what is left to do: every step of either goroutine makes it smaller.
\<close>

definition todo :: "system \<Rightarrow> nat" where
  "todo s =
     length (incoming s) * (3 * length (subs (session s)) + 2) +
     (case reader s of Selecting \<Rightarrow> 0 | Sending chs resp held \<Rightarrow> 3 * length chs + 1) +
     (case caller s of Receiving \<Rightarrow> 1 | Deleting resp \<Rightarrow> 3 | Storing resp \<Rightarrow> 2 | Returned \<Rightarrow> 0)"

subsection \<open>Method wrappers the session uses\<close>

record VersionInfo =
  Software :: string
  vProtocol :: string

text \<open>
  The decoding at the end of \<^verbatim>\<open>ServerVersion\<close>: protocol 1.0 asserts a string; the later
  protocols read the result as a list of strings (nil elements stay empty) and index its
  first two elements.
\<close>

definition string_of :: "json \<Rightarrow> string option" where
  "string_of x = (case x of JString s \<Rightarrow> Some s | JNull \<Rightarrow> Some [] | _ \<Rightarrow> None)"

definition version_info :: "string \<Rightarrow> json \<Rightarrow> (go_error + VersionInfo) outcome" where
  "version_info protocol result =
     (if protocol = ''1.0'' then
        (case result of
           JString s \<Rightarrow> Ok (Inr \<lparr>Software = s, vProtocol = []\<rparr>)
         | _ \<Rightarrow> Panic)
      else if protocol \<in> {''1.1'', ''1.2'', ''1.4'', ''1.4.2''} then
        (case result of
           JNull \<Rightarrow> Panic
         | JArray xs \<Rightarrow>
             (case sequence (map string_of xs) of
                None \<Rightarrow> Ok (Inl UnmarshalTypeError)
              | Some d \<Rightarrow>
                  if 2 \<le> length d then Ok (Inr \<lparr>Software = d ! 0, vProtocol = d ! 1\<rparr>)
                  else Panic)
         | _ \<Rightarrow> Ok (Inl UnmarshalTypeError))
      else Ok (Inr \<lparr>Software = [], vProtocol = []\<rparr>))"

text \<open>
  \<^verbatim>\<open>func (c *Client) ServerVersion() (*VersionInfo, error)\<close>. A nil response (the
  channel was closed) is dereferenced.
\<close>

definition ServerVersion ::
  "response list \<Rightarrow> client \<Rightarrow> ((go_error + VersionInfo) \<times> client) outcome" where
  "ServerVersion inbound c =
     bind (req ''server.version'' (Some [AString (agent c), AString (Protocol c)]) c)
       (\<lambda>(r, c1).
         bind (syncRequest r inbound c1) (\<lambda>(res, c2).
           case res of
             Inl e \<Rightarrow> Ok (Inl e, c2)
           | Inr None \<Rightarrow> Panic
           | Inr (Some resp) \<Rightarrow>
               (case resp_Error resp of
                  Some e \<Rightarrow> Ok (Inl (ErrorMessage (Message e)), c2)
                | None \<Rightarrow>
                    bind (version_info (Protocol c2) (resp_Result resp)) (\<lambda>v. Ok (v, c2)))))"

text \<open>
  \<^verbatim>\<open>func (c *Client) BroadcastTransaction(hex string) (string, error)\<close>: \<open>broadcast_result\<close>
  is what it does with the response of \<open>syncRequest\<close> (nil when the channel was closed). \<^verbatim>\<open>strings.Contains\<close> is \<open>sublist\<close>; the type
  assertion \<^verbatim>\<open>res.Result.(string)\<close> panics on a value that is not a string.
\<close>

definition broadcast_result :: "response option \<Rightarrow> (go_error + string) outcome" where
  "broadcast_result m =
     (case m of
        None \<Rightarrow> Panic
      | Some res \<Rightarrow>
          (case resp_Result res of
             JNull \<Rightarrow> Ok (Inl ErrRejectedTx)
           | JString s \<Rightarrow> if sublist ''rejected'' s then Ok (Inl ErrRejectedTx) else Ok (Inr s)
           | _ \<Rightarrow> Panic))"

definition BroadcastTransaction ::
  "string \<Rightarrow> response list \<Rightarrow> client \<Rightarrow> ((go_error + string) \<times> client) outcome" where
  "BroadcastTransaction tx inbound c =
     bind (req ''blockchain.transaction.broadcast'' (Some [AString tx]) c) (\<lambda>(r, c1).
       bind (syncRequest r inbound c1) (\<lambda>(res, c2).
         case res of
           Inl e \<Rightarrow> Ok (Inl e, c2)
         | Inr m \<Rightarrow> bind (broadcast_result m) (\<lambda>x. Ok (x, c2))))"

subsection \<open>Resuming subscriptions\<close>

text \<open>
  What the \<^verbatim>\<open>select\<close> of the wait loop of \<^verbatim>\<open>resumeSubscriptions\<close> receives: a tick of
  its two-second ticker (with the responses that arrive from the server during the
  probe it starts), or the end of one of the two contexts.
\<close>

datatype wait_event = Tick "response list" | ResumingDone | BgDone

text \<open>The wait loop: \<open>True\<close> when it is left by \<^verbatim>\<open>break WAIT\<close>, \<open>False\<close> when the function returns.\<close>

fun resume_wait :: "wait_event list \<Rightarrow> client \<Rightarrow> (bool \<times> client) outcome" where
  "resume_wait [] c = Blocked"
| "resume_wait (Tick inbound # evs) c =
     bind (ServerVersion inbound c) (\<lambda>(v, c1).
       case v of Inr info \<Rightarrow> Ok (True, c1) | Inl e \<Rightarrow> resume_wait evs c1)"
| "resume_wait (ResumingDone # evs) c = Ok (False, c)"
| "resume_wait (BgDone # evs) c = Ok (False, c)"

text \<open>
  The body of the restart loop for one entry of \<^verbatim>\<open>subs\<close>: the old registration is
  removed, the subscription gets a channel from \<^verbatim>\<open>make\<close>, and \<open>startSubscription\<close>
  registers it again; its error is only logged.
\<close>

definition resume_one :: "int \<times> subscription \<Rightarrow> client \<Rightarrow> client outcome" where
  "resume_one e c =
     (case e of (i, sub) \<Rightarrow>
        bind (removeSubscription i c) (\<lambda>c1.
          let (ch, cs) = make_chan (chans c1) in
          bind (startSubscription (sub\<lparr>messages := ch\<rparr>) (c1\<lparr>chans := cs\<rparr>))
            (\<lambda>(err, c2). Ok c2)))"

fun resume_all :: "(int \<times> subscription) list \<Rightarrow> client \<Rightarrow> client outcome" where
  "resume_all [] c = Ok c"
| "resume_all (e # es) c = bind (resume_one e c) (\<lambda>c1. resume_all es c1)"

text \<open>
  \<^verbatim>\<open>func (c *Client) resumeSubscriptions()\<close>: it locks the client for its whole run
  (\<^verbatim>\<open>defer c.Unlock()\<close>). The restart loop ranges over the subscriptions registered when
  it starts.
\<close>

definition resumeSubscriptions :: "wait_event list \<Rightarrow> client \<Rightarrow> client outcome" where
  "resumeSubscriptions evs c =
     bind (Lock c) (\<lambda>c1.
       bind (resume_wait evs c1) (\<lambda>(go_on, c2).
         if go_on then bind (resume_all (subs c2) c2) (\<lambda>c3. Ok (Unlock c3))
         else Ok (Unlock c2)))"

subsection \<open>Well-formed sessions\<close>

text \<open>
  A session between two calls: the mutex is free, every id is registered once, and every
  registered channel exists and is open.
\<close>

definition session_ok :: "client \<Rightarrow> bool" where
  "session_ok c \<longleftrightarrow>
     \<not> locked c \<and> distinct (map fst (subs c)) \<and>
     (\<forall>s \<in> snd ` set (subs c). messages s < length (chans c) \<and> \<not> closed (chans c ! messages s))"

text \<open>Every registered subscription has a receiver on its channel.\<close>

definition attended :: "client \<Rightarrow> bool" where
  "attended c \<longleftrightarrow> (\<forall>s \<in> snd ` set (subs c). messages s \<in> set (receivers c))"

text \<open>A response to the request \<open>i\<close>: a message without a method that carries the id \<open>i\<close>.\<close>

definition answers :: "int \<Rightarrow> response \<Rightarrow> bool" where
  "answers i w \<longleftrightarrow> resp_Method w = [] \<and> resp_ID w = i"

subsection \<open>Sessions used in examples\<close>

text \<open>
  Successive allocations of request ids: whatever asks for a request (a synchronous call,
  an element of a batch, a subscription, a keep-alive tick) calls \<open>req\<close>.
\<close>

fun allocate :: "(string \<times> slice) list \<Rightarrow> client \<Rightarrow> (request list \<times> client) outcome" where
  "allocate [] c = Ok ([], c)"
| "allocate ((name, ps) # calls) c =
     bind (req name ps c) (\<lambda>(r, c1). bind (allocate calls c1) (\<lambda>(rs, c2). Ok (r # rs, c2)))"

definition fresh :: client where
  "fresh = New \<lparr>opt_Version = [], opt_Protocol = [], opt_Agent = []\<rparr>"

definition banner :: response where
  "banner = \<lparr>resp_RPC = ''2.0'', resp_ID = 0, resp_Method = [], resp_Params = JNull,
     resp_Result = JString ''ElectrumX 1.16.0'', resp_Error = None\<rparr>"

definition headers_sub :: subscription where
  "headers_sub = \<lparr>sub_method = ''blockchain.headers.subscribe'', params = None, messages = 0,
     handler = Some 0, ctx = Some 0\<rparr>"

text \<open>
  A session with one subscription, registered under id 0 on channel 0, whose processing
  loop runs.
\<close>

definition subscribed :: client where
  "subscribed = fresh\<lparr>counter := 1, subs := [(0, headers_sub)],
     chans := [\<lparr>closed = False, delivered = []\<rparr>], receivers := [0]\<rparr>"

text \<open>
  The batch of scenario 3 of the spec, as \<open>batchReq\<close> builds it on a new session, and
  responses to its requests.
\<close>

definition tx_request :: "int \<Rightarrow> string \<Rightarrow> request" where
  "tx_request i h = \<lparr>RPC = [], ID = i, Method = ''blockchain.transaction.get'',
     Params = Some [AString h, ABool True]\<rparr>"

definition batch3 :: "request list" where
  "batch3 = [tx_request 0 ''h1'', tx_request 1 ''h2'', tx_request 2 ''h3'']"

definition reply :: "int \<Rightarrow> string \<Rightarrow> response" where
  "reply i r = \<lparr>resp_RPC = ''2.0'', resp_ID = i, resp_Method = [], resp_Params = JNull,
     resp_Result = JString r, resp_Error = None\<rparr>"

section \<open>Properties\<close>

subsection \<open>Basic facts\<close>

lemma bind_cong:
  "m = m' \<Longrightarrow> (\<And>x. m' = Ok x \<Longrightarrow> f x = f' x) \<Longrightarrow> bind m f = bind m' f'"
  by (cases m') (simp_all add: bind_def)

lemma bind_Ok [simp]: "bind (Ok x) f = f x"
  by (simp add: bind_def)

lemma bind_Panic [simp]: "bind Panic f = Panic"
  by (simp add: bind_def)

lemma bind_Blocked [simp]: "bind Blocked f = Blocked"
  by (simp add: bind_def)


lemma Lock_unlocked [simp]: "\<not> locked c \<Longrightarrow> Lock c = Ok (c\<lparr>locked := True\<rparr>)"
  by (simp add: Lock_def)

lemma Lock_locked [simp]: "locked c \<Longrightarrow> Lock c = Blocked"
  by (simp add: Lock_def)

lemma Unlock_Lock [simp]: "\<not> locked c \<Longrightarrow> Unlock (c\<lparr>locked := True\<rparr>) = c"
  by (simp add: Unlock_def)

lemma New_fields [simp]:
  "counter (New opts) = 0" "subs (New opts) = []" "chans (New opts) = []"
  "locked (New opts) = False" "done_closed (New opts) = False"
  "transport (New opts) = \<lparr>conn_open = True, sent = []\<rparr>"
  by (simp_all add: New_def Let_def)

lemma int_wrap_id: "- (2 ^ 63) \<le> x \<Longrightarrow> x < 2 ^ 63 \<Longrightarrow> int_wrap x = x"
  by (simp add: int_wrap_def)

lemma req_unlocked:
  "\<not> locked c \<Longrightarrow>
   req name ps c =
     Ok (\<lparr>RPC = [], ID = counter c, Method = name, Params = (if len ps = 0 then Some [] else ps)\<rparr>,
         c\<lparr>counter := int_wrap (counter c + 1)\<rparr>)"
  by (simp add: req_def Unlock_def Let_def)

subsection \<open>Request ids\<close>

lemma allocate_ids:
  "\<not> locked c \<Longrightarrow> 0 \<le> counter c \<Longrightarrow> counter c < 2 ^ 63 \<Longrightarrow>
   counter c + int (length calls) \<le> 2 ^ 63 \<Longrightarrow>
   \<exists>rs. allocate calls c = Ok (rs, c\<lparr>counter := int_wrap (counter c + int (length calls))\<rparr>) \<and>
     map ID rs = map (\<lambda>k. counter c + int k) [0..<length calls]"
proof (induction calls arbitrary: c)
  case Nil
  then show ?case by (simp add: int_wrap_id)
next
  case (Cons call calls)
  obtain name ps where call: "call = (name, ps)" by (cases call)
  show ?case
  proof (cases calls)
    case Nil
    with Cons.prems call show ?thesis by (simp add: req_unlocked)
  next
    case (Cons call' calls')
    define c1 where "c1 = c\<lparr>counter := int_wrap (counter c + 1)\<rparr>"
    from Cons.prems Cons have w: "int_wrap (counter c + 1) = counter c + 1"
      by (intro int_wrap_id) auto
    have "\<not> locked c1" "0 \<le> counter c1" "counter c1 < 2 ^ 63"
      "counter c1 + int (length calls) \<le> 2 ^ 63"
      using Cons.prems Cons w by (auto simp: c1_def)
    from Cons.IH [OF this] obtain rs where
      rs: "allocate calls c1 = Ok (rs, c1\<lparr>counter := int_wrap (counter c1 + int (length calls))\<rparr>)"
        "map ID rs = map (\<lambda>k. counter c1 + int k) [0..<length calls]"
      by auto
    have "map (\<lambda>k. counter c + int k) [0..<Suc (length calls)] =
          counter c # map (\<lambda>k. counter c1 + int k) [0..<length calls]"
      by (simp add: upt_rec [of 0] map_Suc_upt [symmetric] c1_def w del: upt_Suc)
    moreover have "c1\<lparr>counter := int_wrap (counter c1 + int (length calls))\<rparr> =
        c\<lparr>counter := int_wrap (counter c + int (length (call # calls)))\<rparr>"
      using w by (simp add: c1_def add.commute add.left_commute)
    ultimately show ?thesis
      using rs Cons.prems call by (simp add: req_unlocked c1_def [symmetric])
  qed
qed

text \<open>A batch allocates its ids by the same successive calls of \<open>req\<close>.\<close>

lemma batchReq_allocate: "batchReq name ps c = allocate (map (\<lambda>p. (name, p)) ps) c"
  by (induction ps arbitrary: c) (simp_all cong: bind_cong)

text \<open>
  The counter of a session reaches the largest \<^verbatim>\<open>int\<close> after \<open>2 ^ 63 - 1\<close> allocations.
\<close>

lemma wrap_state_reached:
  "\<exists>rs. allocate (replicate (2 ^ 63 - 1) (''server.ping'', None)) fresh =
     Ok (rs, fresh\<lparr>counter := 2 ^ 63 - 1\<rparr>)"
proof -
  have "\<not> locked fresh" "0 \<le> counter fresh" "counter fresh < 2 ^ 63"
    "counter fresh + int (length (replicate (2 ^ 63 - 1) (''server.ping'', (None :: slice)))) \<le> 2 ^ 63"
    by (simp_all add: fresh_def)
  from allocate_ids [OF this] show ?thesis
    by (auto simp: fresh_def int_wrap_def)
qed

text \<open>
  C6, as the spec states it, fails where the counter wraps: the request allocated at the
  largest \<^verbatim>\<open>int\<close> is followed by one whose id is the smallest.
\<close>

theorem ids_wrap_counterexample:
  "\<exists>r1 r2 c'. allocate [(''server.ping'', None), (''server.ping'', None)]
       (fresh\<lparr>counter := 2 ^ 63 - 1\<rparr>) = Ok ([r1, r2], c') \<and>
     ID r1 = 2 ^ 63 - 1 \<and> ID r2 = - (2 ^ 63) \<and> ID r2 < ID r1"
  by (simp add: req_unlocked fresh_def int_wrap_def)

text \<open>
  C6 (amended): the first \<open>2 ^ 63\<close> requests of a session, whatever asks for them, get
  the ids 0, 1, 2, ... in the order of their allocation. So each id is strictly greater
  than every id allocated before it, and no two requests share an id.
\<close>

theorem ids_strictly_increasing:
  assumes "int (length calls) \<le> 2 ^ 63"
  shows "\<exists>rs c'. allocate calls (New opts) = Ok (rs, c') \<and>
           map ID rs = map int [0..<length calls] \<and>
           sorted_wrt (<) (map ID rs) \<and> distinct (map ID rs)"
proof -
  have "\<not> locked (New opts)" "0 \<le> counter (New opts)" "counter (New opts) < 2 ^ 63"
    "counter (New opts) + int (length calls) \<le> 2 ^ 63"
    using assms by simp_all
  from allocate_ids [OF this] obtain rs c' where
    rs: "allocate calls (New opts) = Ok (rs, c')" "map ID rs = map int [0..<length calls]"
    by auto
  have "sorted_wrt (<) (map int [0..<length calls])"
    by (simp add: sorted_wrt_map)
  moreover have "distinct (map int [0..<length calls])"
    by (simp add: distinct_map inj_on_def)
  ultimately show ?thesis using rs by auto
qed

theorem ids_strictly_increasing_witness:
  "int (length [(''server.version'', None), (''server.banner'', None),
      (''blockchain.estimatefee'', Some [AString ''6''])]) \<le> 2 ^ 63 \<and>
   (\<exists>rs c'. allocate [(''server.version'', None), (''server.banner'', None),
        (''blockchain.estimatefee'', Some [AString ''6''])] fresh = Ok (rs, c') \<and>
      map ID rs = [0, 1, 2])"
  using ids_strictly_increasing [of "[(''server.version'', None), (''server.banner'', None),
      (''blockchain.estimatefee'', Some [AString ''6''])]"
      "\<lparr>opt_Version = [], opt_Protocol = [], opt_Agent = []\<rparr>"]
  by (auto simp: fresh_def upt_rec)

text \<open>
  The bound is reached: the request number \<open>2 ^ 63\<close> of a session gets the largest
  \<^verbatim>\<open>int\<close>, and the counter wraps behind it.
\<close>

lemma last_id_before_wrap:
  assumes "int (length calls) = 2 ^ 63"
  shows "\<exists>rs c'. allocate calls (New opts) = Ok (rs, c') \<and> last (map ID rs) = 2 ^ 63 - 1 \<and>
           counter c' = - (2 ^ 63)"
proof -
  have "\<not> locked (New opts)" "0 \<le> counter (New opts)" "counter (New opts) < 2 ^ 63"
    "counter (New opts) + int (length calls) \<le> 2 ^ 63"
    using assms by simp_all
  from allocate_ids [OF this] obtain rs where
    rs: "allocate calls (New opts) =
           Ok (rs, (New opts)\<lparr>counter := int_wrap (counter (New opts) + int (length calls))\<rparr>)"
      "map ID rs = map int [0..<length calls]"
    by auto
  from assms have n: "calls \<noteq> []" by auto
  then have "last (map int [0..<length calls]) = int (length calls) - 1"
    by (cases calls) (simp_all add: last_map last_upt del: upt_Suc)
  with rs assms show ?thesis by (simp add: int_wrap_def)
qed

subsection \<open>Closing the session\<close>

text \<open>
  C4, as the spec states it, fails: the second \<^verbatim>\<open>Close\<close> on a session panics, since it
  closes the channel \<^verbatim>\<open>done\<close> again.
\<close>

theorem Close_twice_counterexample:
  "bind (Close transport_close_spec fresh) (Close transport_close_spec) = Panic"
  by (simp add: Close_def transport_close_spec_def fresh_def)

text \<open>
  C4 (amended): \<^verbatim>\<open>Close\<close> may be called once. On a session that has been closed,
  whatever the transport does when it is closed again, \<^verbatim>\<open>Close\<close> does not return: it
  panics at \<^verbatim>\<open>close(c.done)\<close>, unless the transport's close panicked or blocked before.
  On a session that has not been closed, \<^verbatim>\<open>Close\<close> returns once the transport's close
  has, and the session is closed.
\<close>

theorem Close_second_call:
  "(done_closed c \<longrightarrow>
      Close tc c = (case tc (transport c) of Ok t \<Rightarrow> Panic | Panic \<Rightarrow> Panic | Blocked \<Rightarrow> Blocked)) \<and>
   (\<not> done_closed c \<longrightarrow> tc (transport c) = Ok t \<longrightarrow>
      Close tc c = Ok (c\<lparr>transport := t, done_closed := True\<rparr>))"
  by (simp add: Close_def bind_def split: outcome.splits)

theorem Close_second_call_witness:
  "\<not> done_closed fresh \<and>
   Close transport_close_spec fresh =
     Ok (fresh\<lparr>transport := \<lparr>conn_open = False, sent = []\<rparr>, done_closed := True\<rparr>) \<and>
   done_closed (fresh\<lparr>transport := \<lparr>conn_open = False, sent = []\<rparr>, done_closed := True\<rparr>) \<and>
   Close transport_close_spec
     (fresh\<lparr>transport := \<lparr>conn_open = False, sent = []\<rparr>, done_closed := True\<rparr>) = Panic"
  using Close_second_call [of fresh transport_close_spec "\<lparr>conn_open = False, sent = []\<rparr>"]
    Close_second_call [of "fresh\<lparr>transport := \<lparr>conn_open = False, sent = []\<rparr>, done_closed := True\<rparr>"
      transport_close_spec]
  by (simp add: transport_close_spec_def fresh_def)

subsection \<open>Responses without a slot\<close>





subsection \<open>Frames\<close>

text \<open>No delimiter byte stands in what \<^verbatim>\<open>json.Marshal\<close> writes for a request.\<close>

lemma hex_no_delimiter: "k < 16 \<Longrightarrow> hex ! k \<noteq> delimiter"
proof -
  assume "k < 16"
  then have "hex ! k \<in> set hex" by (intro nth_mem) (simp add: hex_def)
  moreover have "delimiter \<notin> set hex" by (simp add: hex_def delimiter_def)
  ultimately show ?thesis by auto
qed

lemma decimal_no_delimiter: "delimiter \<notin> set (decimal n)"
proof (induction n rule: decimal.induct)
  case (1 n)
  show ?case
  proof (cases "n < 10")
    case True
    then have "hex ! n \<noteq> delimiter" by (intro hex_no_delimiter) simp
    with True show ?thesis by (subst decimal.simps) auto
  next
    case False
    have "n mod 10 < 16" by (rule less_trans [of _ 10]) simp_all
    then have "hex ! (n mod 10) \<noteq> delimiter" by (rule hex_no_delimiter)
    with False 1 show ?thesis by (subst decimal.simps) auto
  qed
qed

lemma formatInt_no_delimiter: "delimiter \<notin> set (formatInt i)"
  by (simp add: formatInt_def decimal_no_delimiter) (simp add: delimiter_def)

lemma escapeByte_no_delimiter: "delimiter \<notin> set (escapeByte b)"
proof -
  have "(of_char b :: nat) < 256" by simp
  then have "(of_char b :: nat) div 16 < 16" "(of_char b :: nat) mod 16 < 16" by presburger+
  then have "hex ! (of_char b div 16) \<noteq> delimiter" "hex ! (of_char b mod 16) \<noteq> delimiter"
    by (simp_all add: hex_no_delimiter)
  then show ?thesis
    by (auto simp: escapeByte_def delimiter_def)
qed

lemma htmlSafe_no_delimiter [simp]: "\<not> htmlSafe delimiter"
  by (simp add: htmlSafe_def delimiter_def)

lemma high_no_delimiter: "\<not> (of_char b :: nat) < 0x80 \<Longrightarrow> b \<noteq> delimiter"
  by (auto simp: delimiter_def)

lemma runeLen_bytes:
  assumes "runeLen s = n" "n \<noteq> 0"
  shows "n \<le> length s \<and> (\<forall>b \<in> set (take n s). \<not> (of_char b :: nat) < 0x80)"
proof (cases s)
  case Nil
  with assms show ?thesis by simp
next
  case (Cons b0 bs)
  with assms show ?thesis
    by (auto simp: Let_def cont_def second_ok_def split: if_splits list.splits)
qed

lemma escapeString_no_delimiter: "delimiter \<notin> set (escapeString s)"
proof (induction s rule: escapeString.induct)
  case 1
  show ?case by simp
next
  case (2 b bs)
  show ?case
  proof (cases "(of_char b :: nat) < 0x80")
    case True
    with 2 show ?thesis
      by (subst escapeString.simps) (auto simp: escapeByte_no_delimiter)
  next
    case False
    note high = this
    show ?thesis
    proof (cases "runeLen (b # bs) = 0")
      case True
      with high 2 show ?thesis
        by (subst escapeString.simps) (auto simp: delimiter_def)
    next
      case False
      from runeLen_bytes [OF refl False]
      have "\<forall>x \<in> set (take (runeLen (b # bs)) (b # bs)). x \<noteq> delimiter"
        by (auto simp: delimiter_def)
      with high False 2 show ?thesis
        by (subst escapeString.simps) (auto simp: delimiter_def)
    qed
  qed
qed

lemma appendString_no_delimiter: "delimiter \<notin> set (appendString s)"
  by (simp add: appendString_def escapeString_no_delimiter) (simp add: delimiter_def)

lemma Join_no_delimiter:
  "\<forall>x \<in> set xs. delimiter \<notin> set x \<Longrightarrow> delimiter \<notin> set sep \<Longrightarrow> delimiter \<notin> set (Join xs sep)"
  by (induction xs sep rule: Join.induct) auto

lemma sequence_Some:
  "sequence xs = Some ys \<Longrightarrow> length ys = length xs \<and> (\<forall>k<length xs. xs ! k = Some (ys ! k))"
proof (induction xs arbitrary: ys rule: sequence.induct)
  case 1
  then show ?case by simp
next
  case (2 uu)
  then show ?case by simp
next
  case (3 x xs)
  then show ?case
    by (auto split: option.splits simp: nth_Cons split: nat.splits)
qed

lemma marshalAny_no_delimiter: "marshalAny v = Some j \<Longrightarrow> delimiter \<notin> set j"
proof (induction v arbitrary: j)
  case (ASlice xs)
  from ASlice.prems obtain js where js: "sequence (map marshalAny xs) = Some js"
    and j: "j = ''['' @ Join js '','' @ '']''"
    by (auto split: option.splits)
  have "delimiter \<notin> set x" if "x \<in> set js" for x
  proof -
    from that obtain k where k: "k < length js" "x = js ! k" by (auto simp: in_set_conv_nth)
    from sequence_Some [OF js] k have "marshalAny (xs ! k) = Some x" "k < length xs" by auto
    with ASlice.IH [of "xs ! k" x] show ?thesis by simp
  qed
  then have "delimiter \<notin> set (Join js '','')"
    by (intro Join_no_delimiter) (auto simp: delimiter_def)
  with j show ?case by (simp add: delimiter_def)
next
  case ANil
  then show ?case by (auto simp: delimiter_def)
next
  case (ABool x)
  then show ?case by (cases x) (auto simp: delimiter_def)
next
  case (AInt x)
  then show ?case by (auto simp: formatInt_no_delimiter)
next
  case (AString x)
  then show ?case by (auto simp: appendString_no_delimiter)
next
  case AFunc
  then show ?case by simp
qed

lemma marshalRequest_no_delimiter: "marshalRequest r = Some j \<Longrightarrow> delimiter \<notin> set j"
proof -
  assume "marshalRequest r = Some j"
  then obtain p where p: "marshalSlice (Params r) = Some p"
    and j: "j = ''{'' @ appendString ''jsonrpc'' @ '':'' @ appendString (RPC r) @ '','' @
                appendString ''id'' @ '':'' @ formatInt (ID r) @ '','' @
                appendString ''method'' @ '':'' @ appendString (Method r) @ '','' @
                appendString ''params'' @ '':'' @ p @ ''}''"
    by (auto simp: marshalRequest_def split: option.splits)
  have "delimiter \<notin> set p"
  proof (cases "Params r")
    case None
    with p show ?thesis by (auto simp: marshalSlice_def delimiter_def)
  next
    case (Some xs)
    with p have "marshalAny (ASlice xs) = Some p" by (simp add: marshalSlice_def)
    then show ?thesis by (rule marshalAny_no_delimiter)
  qed
  with j show ?thesis
    by (simp add: appendString_no_delimiter formatInt_no_delimiter) (simp add: delimiter_def)
qed

lemma encode_one_delimiter:
  "encode r = Inr b \<Longrightarrow> \<exists>j. b = j @ [delimiter] \<and> delimiter \<notin> set j"
  by (auto simp: encode_def Let_def split: option.splits if_splits dest: marshalRequest_no_delimiter)

text \<open>
  So what \<open>encode\<close> returns ends with exactly one delimiter. \<open>startSubscription\<close> and the
  keep-alive tick hand that to the transport as it is. The parameters of a request that
  \<open>req\<close> builds are never the nil slice, and are written as an array.
\<close>

lemma req_params_array: "req name ps c = Ok (r, c') \<Longrightarrow> \<exists>xs. Params r = Some xs"
  by (cases ps) (auto simp: req_def bind_def Lock_def len_def Let_def split: if_splits)

lemma marshalSlice_array:
  "marshalSlice (Some xs) = Some p \<Longrightarrow> \<exists>body. p = ''['' @ body @ '']''"
  by (auto simp: marshalSlice_def split: option.splits)

text \<open>
  \<open>syncRequest\<close> appends a delimiter to what \<open>encode\<close> returns: every frame of a
  synchronous call ends with two.
\<close>

lemma sync_frame_two_delimiters:
  "encode r = Inr b \<Longrightarrow> \<exists>j. b @ [delimiter] = j @ [delimiter, delimiter] \<and> delimiter \<notin> set j"
  by (drule encode_one_delimiter) auto

text \<open>
  \<open>encodeBatch\<close> joins what \<open>encode\<close> returns: in the frame of a batch that is not
  empty, a delimiter stands before the closing bracket.
\<close>

lemma Join_last:
  "xs \<noteq> [] \<Longrightarrow> \<forall>x \<in> set xs. x \<noteq> [] \<and> last x = d \<Longrightarrow>
   Join xs sep \<noteq> [] \<and> last (Join xs sep) = d"
  by (induction xs sep rule: Join.induct) auto

lemma encodeAll_delimiters:
  "encodeAll reqs = Inr xs \<Longrightarrow>
   length xs = length reqs \<and> (\<forall>x \<in> set xs. x \<noteq> [] \<and> last x = delimiter)"
proof (induction reqs arbitrary: xs)
  case Nil
  then show ?case by simp
next
  case (Cons r rs)
  from Cons.prems obtain x xs' where x: "encode r = Inr x" "encodeAll rs = Inr xs'" "xs = x # xs'"
    by (auto split: sum.splits)
  from encode_one_delimiter [OF x(1)] have "x \<noteq> [] \<and> last x = delimiter" by auto
  with Cons.IH [OF x(2)] x(3) show ?case by simp
qed

lemma encodeBatch_delimiter_inside:
  assumes "reqs \<noteq> []" "encodeBatch reqs = Inr b"
  shows "\<exists>body. b = arrayStart @ body @ [delimiter] @ arrayEnd"
proof -
  from assms(2) obtain xs where xs: "encodeAll reqs = Inr xs"
    and b: "b = arrayStart @ Join xs comma @ arrayEnd"
    by (auto simp: encodeBatch_def split: sum.splits)
  from encodeAll_delimiters [OF xs] assms(1)
  have "xs \<noteq> []" "\<forall>x \<in> set xs. x \<noteq> [] \<and> last x = delimiter" by auto
  from Join_last [OF this] have "Join xs comma \<noteq> []" "last (Join xs comma) = delimiter"
    by simp_all
  then have "Join xs comma = butlast (Join xs comma) @ [delimiter]"
    by (metis append_butlast_last_id)
  with b show ?thesis by (metis append.assoc)
qed

text \<open>
  C1 at the first call of a session, \<^verbatim>\<open>ServerBanner\<close>, answered by the server: the frame
  that \<open>syncRequest\<close> hands to the transport ends with two delimiters, the one \<open>encode\<close>
  appends and the one \<open>syncRequest\<close> appends to the result of \<open>encode\<close>.
\<close>

theorem syncRequest_sends_two_delimiters:
  \<open>bind (req ''server.banner'' None fresh) (\<lambda>(r, c).
     bind (syncRequest r [banner] c) (\<lambda>(res, c'). Ok (res, sent (transport c')))) =
   Ok (Inr (Some banner),
       [''{"jsonrpc":"2.0","id":0,"method":"server.banner","params":[]}'' @ [CHR 0x0A, CHR 0x0A]])\<close>
  by code_simp

text \<open>
  C8 at a batch of two requests: \<open>encodeBatch\<close> joins the results of \<open>encode\<close>, each of
  which ends with the delimiter, so a delimiter stands after every request inside the
  array.
\<close>

theorem encodeBatch_embeds_delimiters:
  \<open>bind (batchReq ''blockchain.transaction.get''
           [Some [AString ''h1'', ABool True], Some [AString ''h2'', ABool True]] fresh)
     (\<lambda>(reqs, c). Ok (encodeBatch reqs)) =
   Ok (Inr (''[{"jsonrpc":"2.0","id":0,"method":"blockchain.transaction.get","params":["h1",true]}'' @
            [CHR 0x0A] @
            '',{"jsonrpc":"2.0","id":1,"method":"blockchain.transaction.get","params":["h2",true]}'' @
            [CHR 0x0A] @ '']''))\<close>
  by code_simp

subsection \<open>Broadcasting a transaction\<close>

text \<open>
  A synchronous call whose answer is the first response to arrive: the reader hands it
  over, and \<open>syncRequest\<close> returns it.
\<close>

lemma await_ready:
  "ch < length (chans c) \<Longrightarrow> delivered (chans c ! ch) \<noteq> [] \<Longrightarrow>
   await ch ws c = Ok (Some (hd (delivered (chans c ! ch))), c)"
  by (cases ws) (simp_all add: recv_def hd_conv_nth)

lemma handleResponse_deliver:
  "\<not> locked c \<Longrightarrow> resp_Method w = [] \<Longrightarrow> map_of (subs c) (resp_ID w) = Some sub \<Longrightarrow>
   messages sub < length (chans c) \<Longrightarrow> \<not> closed (chans c ! messages sub) \<Longrightarrow>
   messages sub \<in> set (receivers c) \<Longrightarrow>
   handleResponse w c =
     Ok (c\<lparr>chans := (chans c)[messages sub :=
           (chans c ! messages sub)\<lparr>delivered := delivered (chans c ! messages sub) @ [w]\<rparr>]\<rparr>)"
  by (cases c) (simp add: handleResponse_def Unlock_def chan_send_def)

lemma removeSubscription_registered:
  "\<not> locked c \<Longrightarrow> map_of (subs c) i = Some sub \<Longrightarrow> messages sub < length (chans c) \<Longrightarrow>
   \<not> closed (chans c ! messages sub) \<Longrightarrow>
   removeSubscription i c =
     Ok (c\<lparr>chans := (chans c)[messages sub := (chans c ! messages sub)\<lparr>closed := True\<rparr>],
           subs := AList.delete i (subs c)\<rparr>)"
  by (cases c) (simp add: removeSubscription_def Unlock_def chan_close_def)

lemma syncRequest_answered:
  assumes "\<not> locked c" "conn_open (transport c)" "encode r = Inr b"
    and "resp_Method w = []" "resp_ID w = ID r"
  shows "\<exists>c'. syncRequest r (w # later) c = Ok (Inr (Some w), c')"
  using assms
  by (simp add: syncRequest_def make_chan_def sendMessage_def Let_def Unlock_def recv_def
      handleResponse_deliver update_conv' await_ready removeSubscription_registered)

lemma encode_broadcast:
  "\<exists>b. encode \<lparr>RPC = [], ID = i, Method = ''blockchain.transaction.broadcast'',
           Params = Some [AString tx]\<rparr> = Inr b"
  by (simp add: encode_def marshalRequest_def marshalSlice_def Let_def)

text \<open>
  C10, as the spec states it, fails at a response whose result is neither nil nor a
  string: the server answers the broadcast with \<^verbatim>\<open>"result":true\<close>, and the type
  assertion \<^verbatim>\<open>res.Result.(string)\<close> panics, so that neither the sentinel error nor the
  result is returned.
\<close>

theorem BroadcastTransaction_not_string:
  "BroadcastTransaction ''00'' [(reply 0 [])\<lparr>resp_Result := JBool True\<rparr>] fresh = Panic"
  by code_simp

text \<open>
  C10 (amended): \<open>BroadcastTransaction\<close> on a session whose mutex is free and whose
  connection is open, answered by the server with the response \<open>w\<close>. What it returns is
  fixed by the result of \<open>w\<close> alone, whatever the error object of \<open>w\<close>: for a nil result,
  and for a string that contains "rejected", the error \<open>ErrRejectedTx\<close>; for any other
  string, that string; for a result that is neither nil nor a string, nothing: it panics.
\<close>

theorem BroadcastTransaction_result:
  assumes "\<not> locked c" "conn_open (transport c)" "resp_Method w = []" "resp_ID w = counter c"
  shows "bind (BroadcastTransaction tx (w # later) c) (\<lambda>(x, c'). Ok x) =
           (case resp_Result w of
              JNull \<Rightarrow> Ok (Inl ErrRejectedTx)
            | JString s \<Rightarrow> if sublist ''rejected'' s then Ok (Inl ErrRejectedTx) else Ok (Inr s)
            | _ \<Rightarrow> Panic)"
proof -
  define r where "r = \<lparr>RPC = [], ID = counter c,
      Method = ''blockchain.transaction.broadcast'', Params = Some [AString tx]\<rparr>"
  obtain b where b: "encode r = Inr b"
    using encode_broadcast by (auto simp: r_def)
  have l: "\<not> locked (c\<lparr>counter := int_wrap (counter c + 1)\<rparr>)"
    "conn_open (transport (c\<lparr>counter := int_wrap (counter c + 1)\<rparr>))"
    "resp_ID w = ID r"
    using assms by (simp_all add: r_def)
  from syncRequest_answered [OF l(1,2) b assms(3) l(3), of later] obtain c' where
    "syncRequest r (w # later) (c\<lparr>counter := int_wrap (counter c + 1)\<rparr>) = Ok (Inr (Some w), c')"
    by blast
  then show ?thesis
    using assms(1)
    by (simp add: BroadcastTransaction_def req_unlocked len_def r_def broadcast_result_def
        split: json.splits)
qed

theorem BroadcastTransaction_result_witness:
  "\<not> locked fresh \<and> conn_open (transport fresh) \<and>
   bind (BroadcastTransaction ''00'' [reply 0 ''9f2c''] fresh) (\<lambda>(x, c'). Ok x) = Ok (Inr ''9f2c'') \<and>
   bind (BroadcastTransaction ''00''
           [(reply 0 ''transaction rejected'')\<lparr>resp_Error := Some \<lparr>Code = 1, Message = ''bad''\<rparr>\<rparr>] fresh)
     (\<lambda>(x, c'). Ok x) = Ok (Inl ErrRejectedTx) \<and>
   bind (BroadcastTransaction ''00''
           [(reply 0 [])\<lparr>resp_Result := JNull, resp_Error := Some \<lparr>Code = 1, Message = ''bad''\<rparr>\<rparr>] fresh)
     (\<lambda>(x, c'). Ok x) = Ok (Inl ErrRejectedTx)"
  using BroadcastTransaction_result [of fresh "reply 0 ''9f2c''" "''00''" "[]"]
    BroadcastTransaction_result [of fresh
      "(reply 0 ''transaction rejected'')\<lparr>resp_Error := Some \<lparr>Code = 1, Message = ''bad''\<rparr>\<rparr>" "''00''" "[]"]
    BroadcastTransaction_result [of fresh
      "(reply 0 [])\<lparr>resp_Result := JNull, resp_Error := Some \<lparr>Code = 1, Message = ''bad''\<rparr>\<rparr>" "''00''" "[]"]
  by (simp add: fresh_def reply_def sublist_code)

subsection \<open>Batches\<close>

lemma map_of_batch_register:
  "map_of (batch_register res reqs m) i =
     (if i \<in> ID ` set reqs then Some (batch_sub res) else map_of m i)"
  by (induction reqs arbitrary: m) (auto simp: update_conv')

lemma distinct_batch_register:
  "distinct (map fst m) \<Longrightarrow> distinct (map fst (batch_register res reqs m))"
  by (induction reqs arbitrary: m) (simp_all add: distinct_update)

lemma map_of_batch_index_other:
  "x \<notin> ID ` set reqs \<Longrightarrow> map_of (batch_index reqs i m) x = map_of m x"
  by (induction reqs arbitrary: i m) (auto simp: update_conv')

lemma map_of_batch_index:
  "distinct (map ID reqs) \<Longrightarrow> j < length reqs \<Longrightarrow>
   map_of (batch_index reqs i m) (ID (reqs ! j)) = Some (i + j)"
proof (induction reqs arbitrary: i m j)
  case Nil
  then show ?case by simp
next
  case (Cons r rs)
  show ?case
  proof (cases j)
    case 0
    with Cons.prems show ?thesis
      by (simp add: map_of_batch_index_other update_conv')
  next
    case (Suc j')
    with Cons.prems Cons.IH [of j' "Suc i"] show ?thesis by simp
  qed
qed

lemma batch_index_facts:
  assumes "distinct (map ID reqs)"
  shows "\<forall>i \<in> ID ` set reqs. \<exists>k<length reqs. map_of (batch_index reqs 0 []) i = Some k"
    and "inj_on (map_of (batch_index reqs 0 [])) (ID ` set reqs)"
proof -
  have idx: "\<exists>j<length reqs. i = ID (reqs ! j) \<and> map_of (batch_index reqs 0 []) i = Some j"
    if "i \<in> ID ` set reqs" for i
  proof -
    from that obtain j where j: "j < length reqs" "i = ID (reqs ! j)"
      by (auto simp: in_set_conv_nth)
    with map_of_batch_index [OF assms j(1), of 0 "[]"] show ?thesis by auto
  qed
  then show "\<forall>i \<in> ID ` set reqs. \<exists>k<length reqs. map_of (batch_index reqs 0 []) i = Some k"
    by blast
  show "inj_on (map_of (batch_index reqs 0 [])) (ID ` set reqs)"
  proof (rule inj_onI)
    fix x y
    assume x: "x \<in> ID ` set reqs" and y: "y \<in> ID ` set reqs"
      and e: "map_of (batch_index reqs 0 []) x = map_of (batch_index reqs 0 []) y"
    from idx [OF x] idx [OF y] e show "x = y" by auto
  qed
qed

lemma batchReq_ok:
  assumes "session_ok c" "0 \<le> counter c" "counter c + int (length ps) < 2 ^ 63"
  shows "\<exists>reqs. batchReq name ps c = Ok (reqs, c\<lparr>counter := counter c + int (length ps)\<rparr>) \<and>
           map ID reqs = map (\<lambda>k. counter c + int k) [0..<length ps] \<and>
           distinct (map ID reqs) \<and> length reqs = length ps \<and>
           session_ok (c\<lparr>counter := counter c + int (length ps)\<rparr>)"
proof -
  from assms(1) have l: "\<not> locked c" by (simp add: session_ok_def)
  from assms(2,3) have "counter c < 2 ^ 63" by simp
  moreover from assms(2,3) have "int_wrap (counter c + int (length ps)) = counter c + int (length ps)"
    by (intro int_wrap_id) auto
  ultimately obtain reqs where
    r: "batchReq name ps c = Ok (reqs, c\<lparr>counter := counter c + int (length ps)\<rparr>)"
      "map ID reqs = map (\<lambda>k. counter c + int k) [0..<length ps]"
    using allocate_ids [OF l assms(2), of "map (\<lambda>p. (name, p)) ps"] assms(3)
    by (auto simp: batchReq_allocate)
  have "distinct (map (\<lambda>k. counter c + int k) [0..<length ps])"
    by (simp add: distinct_map inj_on_def)
  with r(2) have "distinct (map ID reqs)" by simp
  moreover from r(2) have "length reqs = length ps"
    by (metis length_map length_upt minus_nat.diff_0)
  moreover from assms(1) have "session_ok (c\<lparr>counter := counter c + int (length ps)\<rparr>)"
    by (simp add: session_ok_def)
  ultimately show ?thesis using r by blast
qed

lemma batch3_built:
  "batchReq ''blockchain.transaction.get''
     [Some [AString ''h1'', ABool True], Some [AString ''h2'', ABool True],
      Some [AString ''h3'', ABool True]] fresh = Ok (batch3, fresh\<lparr>counter := 3\<rparr>)"
  by (simp add: req_unlocked fresh_def batch3_def tx_request_def len_def int_wrap_def)

lemma batch3_encodes: "encodeBatch batch3 = Inr (projr (encodeBatch batch3))"
  by code_simp

lemma session_ok_fresh: "session_ok (fresh\<lparr>counter := 3\<rparr>)"
  by (simp add: session_ok_def fresh_def)

subsection \<open>Resuming\<close>

lemma resume_wait_locked:
  assumes "locked c"
  shows "resume_wait evs c = Blocked \<or> resume_wait evs c = Ok (False, c)"
proof (cases evs)
  case Nil
  then show ?thesis by simp
next
  case (Cons ev evs')
  with assms show ?thesis
    by (cases ev) (simp_all add: ServerVersion_def req_def Lock_def)
qed

lemma resumeSubscriptions_never_restarts:
  "resumeSubscriptions evs c = Blocked \<or> resumeSubscriptions evs c = Ok c"
proof (cases "locked c")
  case True
  then show ?thesis by (simp add: resumeSubscriptions_def Lock_def)
next
  case False
  have l: "locked (c\<lparr>locked := True\<rparr>)" by simp
  from resume_wait_locked [OF l, of evs] False show ?thesis
    by (auto simp: resumeSubscriptions_def Lock_def Unlock_def)
qed


text \<open>
  The body of the restart loop, run on a well-formed session whose mutex is free: the old
  id is removed and its channel closed, and the subscription, otherwise unchanged, is
  registered under the next id with a new, open and empty channel that its processing
  loop receives from.
\<close>

lemma resume_one_effect:
  assumes ok: "session_ok c" and sub: "map_of (subs c) i = Some sub"
    and conn: "conn_open (transport c)" and old: "i < counter c"
    and enc: "encode \<lparr>RPC = [], ID = counter c, Method = sub_method sub,
                Params = (if len (params sub) = 0 then Some [] else params sub)\<rparr> = Inr b"
  shows "\<exists>c'. resume_one (i, sub) c = Ok c' \<and>
           map_of (subs c') i = None \<and>
           map_of (subs c') (counter c) = Some (sub\<lparr>messages := length (chans c)\<rparr>) \<and>
           chans c' ! length (chans c) = \<lparr>closed = False, delivered = []\<rparr> \<and>
           length (chans c) \<in> set (receivers c') \<and>
           closed (chans c' ! messages sub) \<and>
           sent (transport c') = sent (transport c) @ [b]"
proof -
  from ok have l: "\<not> locked c" by (simp add: session_ok_def)
  from sub have "(i, sub) \<in> set (subs c)" by (rule map_of_SomeD)
  with ok have ch: "messages sub < length (chans c)" "\<not> closed (chans c ! messages sub)"
    unfolding session_ok_def by force+
  define cs where "cs = (chans c)[messages sub := (chans c ! messages sub)\<lparr>closed := True\<rparr>]"
  define c1 where "c1 = c\<lparr>chans := cs, subs := AList.delete i (subs c)\<rparr>"
  have r: "removeSubscription i c = Ok c1"
    using l sub ch by (simp add: removeSubscription_def chan_close_def c1_def cs_def Unlock_def)
  define sub' where "sub' = sub\<lparr>messages := length (chans c)\<rparr>"
  define c' where "c' = c1\<lparr>chans := cs @ [\<lparr>closed = False, delivered = []\<rparr>],
      receivers := length (chans c) # receivers c,
      counter := int_wrap (counter c + 1),
      subs := AList.update (counter c) sub' (AList.delete i (subs c)),
      transport := (transport c)\<lparr>sent := sent (transport c) @ [b]\<rparr>\<rparr>"
  have l1: "\<not> locked (c1\<lparr>chans := cs @ [\<lparr>closed = False, delivered = []\<rparr>],
      receivers := messages sub' # receivers c1\<rparr>)"
    using l by (simp add: c1_def)
  define r where "r = \<lparr>RPC = [], ID = counter c, Method = sub_method sub,
      Params = (if len (params sub) = 0 then Some [] else params sub)\<rparr>"
  have rq: "req (sub_method sub') (params sub')
      (c1\<lparr>chans := cs @ [\<lparr>closed = False, delivered = []\<rparr>],
          receivers := messages sub' # receivers c1\<rparr>) =
      Ok (r, c1\<lparr>chans := cs @ [\<lparr>closed = False, delivered = []\<rparr>],
                receivers := messages sub' # receivers c1,
                counter := int_wrap (counter c + 1)\<rparr>)"
    unfolding req_unlocked [OF l1] by (simp add: r_def sub'_def c1_def)
  have e: "encode r = Inr b" using enc by (simp add: r_def)
  have i: "ID r = counter c" by (simp add: r_def)
  have s: "startSubscription sub' (c1\<lparr>chans := cs @ [\<lparr>closed = False, delivered = []\<rparr>]\<rparr>) = Ok (None, c')"
    unfolding startSubscription_def
    using l conn e i rq
    by (simp add: sendMessage_def Lock_def Unlock_def Let_def c1_def c'_def sub'_def)
  have "resume_one (i, sub) c = Ok c'"
    using r s by (simp add: resume_one_def make_chan_def c1_def cs_def sub'_def)
  moreover have "map_of (subs c') i = None"
    using old by (simp add: c'_def update_conv' delete_conv')
  moreover have "map_of (subs c') (counter c) = Some (sub\<lparr>messages := length (chans c)\<rparr>)"
    by (simp add: c'_def update_conv' sub'_def)
  moreover have "chans c' ! length (chans c) = \<lparr>closed = False, delivered = []\<rparr>"
    by (simp add: c'_def cs_def nth_append)
  moreover have "length (chans c) \<in> set (receivers c')"
    by (simp add: c'_def)
  moreover have "closed (chans c' ! messages sub)"
    using ch by (simp add: c'_def cs_def nth_append)
  moreover have "sent (transport c') = sent (transport c) @ [b]"
    by (simp add: c'_def)
  ultimately show ?thesis by blast
qed

text \<open>
  C7 at a session with one subscription: \<open>resumeSubscriptions\<close> holds the mutex when its
  first tick calls \<open>ServerVersion\<close>, whose \<open>req\<close> locks the same mutex. It waits there for
  ever and registers nothing again (\<open>resumeSubscriptions_never_restarts\<close>: whatever the
  session and the events, it blocks or returns with the session unchanged).
\<close>

theorem resume_deadlocks:
  "resumeSubscriptions [Tick [banner\<lparr>resp_ID := 1\<rparr>]] subscribed = Blocked"
  by code_simp

end
